theory Spec2Isabelle
  imports Main "HOL-Library.Option_ord"
begin

section \<open>Data model of the queue store\<close>

text \<open>
  The persistent store is an SQLite database. Each table is a list of rows in rowid
  order. A nullable column is an \<open>option\<close>. Timestamps are stored by the program as
  ISO-8601 text and turned into milliseconds by \<open>new Date(...)\<close>; here a timestamp is
  the number of milliseconds it denotes. The schema file is not among the sources, so
  the tables carry no constraint beyond the identifiers the store assigns to new ticket
  rows. Only the columns that the modelled operations read or write are kept.
\<close>

datatype ticket_state = Waiting | Recycled | Called | Completed | NoShow

datatype counter_state = Offline | Available | Serving | OnBreak

record ticket =
  t_id :: int
  ticket_number :: string
  service_id :: int
  t_state :: ticket_state
  priority :: "int option"
  created_at :: "int option"
  called_at :: "int option"
  served_at :: "int option"
  completed_at :: "int option"
  estimated_wait :: "int option"
  actual_wait :: "int option"
  service_duration :: "int option"
  counter_id :: "int option"
  agent_id :: "int option"
  recall_count :: "int option"
  original_service_id :: "int option"
  transferred_at :: "int option"
  t_notes :: "string option"
  customer_name :: "string option"
  customer_phone :: "string option"
  customer_email :: "string option"

record counter =
  c_id :: int
  c_state :: counter_state
  current_agent_id :: "int option"
  current_ticket_id :: "int option"
  default_service_id :: "int option"

record service =
  s_id :: int
  s_name :: string
  prefix :: string
  range_start :: "int option"
  range_end :: "int option"
  current_number :: "int option"
  estimated_service_time :: "int option"
  is_active :: bool
  s_priority :: int

record agent_service =
  as_agent_id :: int
  as_service_id :: int
  as_priority :: int

record store =
  tickets :: "ticket list"
  counters :: "counter list"
  services :: "service list"
  agent_services :: "agent_service list"
  ticket_seq :: "int option"

text \<open>
  A JavaScript \<open>Error\<close>: \<open>httpError(status, message)\<close> sets a status, a plain
  \<open>new Error(message)\<close> and an error of the database driver have none.
\<close>

datatype error = Error (status: "nat option") (message: string)

definition httpError :: "nat \<Rightarrow> string \<Rightarrow> error" where
  "httpError st msg = Error (Some st) msg"

text \<open>The request boundary answers with \<open>error.status || 500\<close>.\<close>

definition response_status :: "error \<Rightarrow> nat" where
  "response_status e = (case status e of None \<Rightarrow> 500 | Some s \<Rightarrow> if s = 0 then 500 else s)"

section \<open>Transaction client (dbClient.js)\<close>

text \<open>
  The connection holds the visible contents of the database, the contents saved when a
  transaction was opened (absent outside a transaction) and the transaction statements
  issued so far, oldest first. \<open>exec\<close> follows SQLite: \<open>BEGIN\<close> fails inside a
  transaction, \<open>COMMIT\<close> and \<open>ROLLBACK\<close> fail outside of one; a failing statement
  is still recorded as issued.
\<close>

datatype tx_stmt = Begin "string option" | Commit | Rollback

record conn =
  data :: store
  saved :: "store option"
  issued :: "tx_stmt list"

fun exec :: "tx_stmt \<Rightarrow> conn \<Rightarrow> error option \<times> conn" where
  "exec (Begin m) c =
     (case saved c of
        Some _ \<Rightarrow> (Some (Error None ''SQLITE_ERROR: cannot start a transaction within a transaction''),
                   c\<lparr>issued := issued c @ [Begin m]\<rparr>)
      | None \<Rightarrow> (None, c\<lparr>saved := Some (data c), issued := issued c @ [Begin m]\<rparr>))"
| "exec Commit c =
     (case saved c of
        None \<Rightarrow> (Some (Error None ''SQLITE_ERROR: cannot commit - no transaction is active''),
                 c\<lparr>issued := issued c @ [Commit]\<rparr>)
      | Some _ \<Rightarrow> (None, c\<lparr>saved := None, issued := issued c @ [Commit]\<rparr>))"
| "exec Rollback c =
     (case saved c of
        None \<Rightarrow> (Some (Error None ''SQLITE_ERROR: cannot rollback - no transaction is active''),
                 c\<lparr>issued := issued c @ [Rollback]\<rparr>)
      | Some d \<Rightarrow> (None, c\<lparr>data := d, saved := None, issued := issued c @ [Rollback]\<rparr>))"

definition toUpperCase :: "string \<Rightarrow> string" where
  "toUpperCase s =
     map (\<lambda>ch. if (97::nat) \<le> of_char ch \<and> of_char ch \<le> (122::nat)
                then char_of (of_char ch - (32::nat)) else ch) s"

text \<open>
  A unit of work reads and writes the tables through the client and either returns a
  result or throws; it is a function from the contents of the database to the outcome
  and the contents it leaves behind. \<open>withTransaction\<close> has the branches of the
  source: a failing \<open>BEGIN\<close> throws before the work starts; an error of the work or of
  \<open>COMMIT\<close> is caught, \<open>ROLLBACK\<close> is issued, a failure of the rollback is only
  printed, and the caught error is thrown again. \<open>beginStatement\<close> is the
  statement that opens the transaction, with the mode of the options in upper case.
\<close>

definition beginStatement :: "string option \<Rightarrow> tx_stmt" where
  "beginStatement option_mode =
     Begin (case option_mode of
              None \<Rightarrow> None
            | Some m \<Rightarrow> if m = [] then None else Some (toUpperCase m))"

definition rollback_and_rethrow :: "error \<Rightarrow> conn \<Rightarrow> (error + 'a) \<times> conn" where
  "rollback_and_rethrow err c = (case exec Rollback c of (_, c') \<Rightarrow> (Inl err, c'))"

definition withTransaction ::
  "(store \<Rightarrow> (error + 'a) \<times> store) \<Rightarrow> string option \<Rightarrow> conn \<Rightarrow> (error + 'a) \<times> conn" where
  "withTransaction work option_mode c =
     (case exec (beginStatement option_mode) c of
        (Some err, c0) \<Rightarrow> (Inl err, c0)
      | (None, c1) \<Rightarrow>
          (case work (data c1) of
             (Inl err, d2) \<Rightarrow> rollback_and_rethrow err (c1\<lparr>data := d2\<rparr>)
           | (Inr result, d2) \<Rightarrow>
               (case exec Commit (c1\<lparr>data := d2\<rparr>) of
                  (None, c3) \<Rightarrow> (Inr result, c3)
                | (Some err, c3) \<Rightarrow> rollback_and_rethrow err c3)))"

section \<open>JavaScript values and SQL helpers\<close>

text \<open>Truthiness of a nullable number and of a nullable string.\<close>

definition truthy_num :: "int option \<Rightarrow> bool" where
  "truthy_num v = (case v of None \<Rightarrow> False | Some n \<Rightarrow> n \<noteq> 0)"

definition truthy_str :: "string option \<Rightarrow> bool" where
  "truthy_str v = (case v of None \<Rightarrow> False | Some s \<Rightarrow> s \<noteq> [])"

text \<open>\<open>value || null\<close> on a nullable string.\<close>

definition or_null :: "string option \<Rightarrow> string option" where
  "or_null v = (if truthy_str v then v else None)"

text \<open>
  \<open>parsePositiveInt(value, field)\<close>: the request body holds an integer or nothing
  under each key; a missing value is \<open>NaN\<close> after \<open>Number(...)\<close> and is refused.
\<close>

definition parsePositiveInt :: "int option \<Rightarrow> string \<Rightarrow> error + int" where
  "parsePositiveInt v field =
     (case v of
        None \<Rightarrow> Inl (httpError 400 (field @ '' must be a positive integer''))
      | Some parsed \<Rightarrow>
          if parsed \<le> 0 then Inl (httpError 400 (field @ '' must be a positive integer''))
          else Inr parsed)"

text \<open>\<open>String(n)\<close> for an integer and \<open>padStart\<close>.\<close>

fun digits_of_nat :: "nat \<Rightarrow> string" where
  "digits_of_nat n =
     (if n < 10 then [char_of (48 + n)]
      else digits_of_nat (n div 10) @ [char_of (48 + n mod 10)])"

declare digits_of_nat.simps [simp del]

definition String_of_int :: "int \<Rightarrow> string" where
  "String_of_int i =
     (if i < 0 then CHR ''-'' # digits_of_nat (nat (- i)) else digits_of_nat (nat i))"

definition padStart :: "nat \<Rightarrow> char \<Rightarrow> string \<Rightarrow> string" where
  "padStart n ch s = replicate (n - length s) ch @ s"

definition format_ticket_number :: "string \<Rightarrow> int \<Rightarrow> string" where
  "format_ticket_number pfx n = pfx @ padStart 3 (CHR ''0'') (String_of_int n)"

text \<open>
  \<open>ORDER BY\<close>: a stable insertion sort under a strict comparison, so rows with equal
  keys keep their rowid order. \<open>NULL\<close> sorts below every value, as \<open>None\<close> does in
  the order on \<open>option\<close>.
\<close>

fun insert_row :: "('a \<Rightarrow> 'a \<Rightarrow> bool) \<Rightarrow> 'a \<Rightarrow> 'a list \<Rightarrow> 'a list" where
  "insert_row precedes x [] = [x]"
| "insert_row precedes x (y # ys) =
     (if precedes y x then y # insert_row precedes x ys else x # y # ys)"

definition order_by :: "('a \<Rightarrow> 'a \<Rightarrow> bool) \<Rightarrow> 'a list \<Rightarrow> 'a list" where
  "order_by precedes rows = foldr (insert_row precedes) rows []"

text \<open>\<open>ORDER BY priority DESC, created_at ASC\<close>\<close>

definition priority_desc_created_asc :: "ticket \<Rightarrow> ticket \<Rightarrow> bool" where
  "priority_desc_created_asc a b =
     (priority b < priority a \<or> (priority a = priority b \<and> created_at a < created_at b))"

text \<open>\<open>ORDER BY created_at\<close>\<close>

definition created_asc :: "ticket \<Rightarrow> ticket \<Rightarrow> bool" where
  "created_asc a b = (created_at a < created_at b)"

text \<open>\<open>tx.get\<close> returns the first row of the result, or nothing.\<close>

definition first_row :: "'a list \<Rightarrow> 'a option" where
  "first_row rows = (case rows of [] \<Rightarrow> None | r # _ \<Rightarrow> Some r)"

text \<open>\<open>JOIN services s ON t.service_id = s.id\<close>: the service row of a ticket.\<close>

definition service_of :: "store \<Rightarrow> ticket \<Rightarrow> service option" where
  "service_of st t = find (\<lambda>s. s_id s = service_id t) (services st)"

definition active_service :: "store \<Rightarrow> int \<Rightarrow> service option" where
  "active_service st sid = find (\<lambda>s. s_id s = sid \<and> is_active s) (services st)"

definition update_tickets :: "(ticket \<Rightarrow> bool) \<Rightarrow> (ticket \<Rightarrow> ticket) \<Rightarrow> store \<Rightarrow> store" where
  "update_tickets cond f st = st\<lparr>tickets := map (\<lambda>t. if cond t then f t else t) (tickets st)\<rparr>"

definition update_counters :: "(counter \<Rightarrow> bool) \<Rightarrow> (counter \<Rightarrow> counter) \<Rightarrow> store \<Rightarrow> store" where
  "update_counters cond f st = st\<lparr>counters := map (\<lambda>c. if cond c then f c else c) (counters st)\<rparr>"

definition update_services :: "(service \<Rightarrow> bool) \<Rightarrow> (service \<Rightarrow> service) \<Rightarrow> store \<Rightarrow> store" where
  "update_services cond f st = st\<lparr>services := map (\<lambda>s. if cond s then f s else s) (services st)\<rparr>"

text \<open>
  \<open>INSERT INTO tickets\<close>: the store assigns the identifier, one above the largest
  identifier in the table or in the sequence record, whichever is larger, and returns it
  as \<open>lastID\<close>.
\<close>

definition next_ticket_id :: "store \<Rightarrow> int" where
  "next_ticket_id st =
     max (case ticket_seq st of None \<Rightarrow> 0 | Some n \<Rightarrow> n)
         (fold (\<lambda>t m. max (t_id t) m) (tickets st) 0) + 1"

definition insert_ticket :: "ticket \<Rightarrow> store \<Rightarrow> int \<times> store" where
  "insert_ticket row st =
     (let lastID = next_ticket_id st
      in (lastID, st\<lparr>tickets := tickets st @ [row\<lparr>t_id := lastID\<rparr>],
                      ticket_seq := Some lastID\<rparr>))"

section \<open>Queue Snapshot Builder\<close>

text \<open>
  A row of the snapshot's ticket list. The source repeats each value under snake-case
  and camel-case keys; the record keeps one field per value.
\<close>

record snapshot_ticket =
  st_id :: int
  st_ticket_number :: string
  st_service_id :: int
  st_priority :: "int option"
  st_created_at :: "int option"
  st_estimated_wait :: "int option"
  st_customer_name :: "string option"
  st_customer_phone :: "string option"
  st_state :: ticket_state
  st_isRecycled :: bool

record queue_snapshot =
  q_serviceId :: int
  q_waiting :: nat
  q_serving :: nat
  q_tickets :: "snapshot_ticket list"

text \<open>\<open>SELECT state, COUNT(*) ... GROUP BY state\<close> over the three queue states.\<close>

definition state_counts :: "store \<Rightarrow> int \<Rightarrow> (ticket_state \<times> nat) list" where
  "state_counts st serviceId =
     filter (\<lambda>(s, n). 0 < n)
       (map (\<lambda>s. (s, length (filter (\<lambda>t. service_id t = serviceId \<and> t_state t = s) (tickets st))))
            [Called, Recycled, Waiting])"

definition snapshot_row :: "ticket \<Rightarrow> snapshot_ticket" where
  "snapshot_row row =
     \<lparr> st_id = t_id row,
       st_ticket_number = ticket_number row,
       st_service_id = service_id row,
       st_priority = priority row,
       st_created_at = created_at row,
       st_estimated_wait = estimated_wait row,
       st_customer_name = customer_name row,
       st_customer_phone = customer_phone row,
       st_state = t_state row,
       st_isRecycled = (t_state row = Recycled) \<rparr>"

definition waiting_rows :: "store \<Rightarrow> int \<Rightarrow> ticket list" where
  "waiting_rows st serviceId =
     order_by priority_desc_created_asc
       (filter (\<lambda>t. service_id t = serviceId \<and> (t_state t = Waiting \<or> t_state t = Recycled))
               (tickets st))"

definition getQueueSnapshot :: "store \<Rightarrow> int \<Rightarrow> queue_snapshot" where
  "getQueueSnapshot st serviceId =
     fold (\<lambda>(s, n) snap.
             if s = Called then snap\<lparr>q_serving := n\<rparr>
             else if s = Waiting \<or> s = Recycled then snap\<lparr>q_waiting := q_waiting snap + n\<rparr>
             else snap)
          (state_counts st serviceId)
          \<lparr> q_serviceId = serviceId, q_waiting = 0, q_serving = 0,
            q_tickets = map snapshot_row (waiting_rows st serviceId) \<rparr>"

section \<open>Ticket Lifecycle Engine (terminal routes)\<close>

text \<open>
  The JSON body of a terminal request. Each numeric key holds an integer or is absent.
  A route parses the body, runs one unit of work inside \<open>withTransaction\<close> and answers
  with the result or with the error thrown. The audit record and the realtime
  broadcast that follow a commit do not touch the tables modelled here and are left out.
\<close>

record request_body =
  b_ticketId :: "int option"
  b_counterId :: "int option"
  b_agentId :: "int option"
  b_serviceId :: "int option"
  b_targetServiceId :: "int option"
  b_position :: "int option"
  b_notes :: "string option"

text \<open>\<open>req.body?.key ? parsePositiveInt(req.body.key, 'key') : fallback\<close>\<close>

definition parse_optional :: "int option \<Rightarrow> string \<Rightarrow> int option \<Rightarrow> error + int option" where
  "parse_optional v field fallback =
     (if truthy_num v
      then (case parsePositiveInt v field of Inl e \<Rightarrow> Inl e | Inr n \<Rightarrow> Inr (Some n))
      else Inr fallback)"

subsection \<open>call-next\<close>

record call_next_result =
  cn_id :: int
  cn_number :: string
  cn_serviceId :: int
  cn_serviceName :: string
  cn_customerName :: string
  cn_calledAt :: int
  cn_queue :: queue_snapshot

text \<open>The service assignments of an agent, \<open>ORDER BY priority\<close>.\<close>

definition agent_service_ids :: "store \<Rightarrow> int \<Rightarrow> int list" where
  "agent_service_ids st agentId =
     map as_service_id
       (order_by (\<lambda>a b. as_priority a < as_priority b)
          (filter (\<lambda>a. as_agent_id a = agentId) (agent_services st)))"

text \<open>The default service of the counter, when that service is active.\<close>

definition counter_default_service :: "store \<Rightarrow> int \<Rightarrow> service option" where
  "counter_default_service st counterId =
     first_row
       (concat (map (\<lambda>c. filter (\<lambda>s. default_service_id c = Some (s_id s)
                                       \<and> c_id c = counterId \<and> is_active s)
                                 (services st))
                    (counters st)))"

text \<open>\<open>SELECT ... FROM services WHERE is_active = 1 ORDER BY priority, id LIMIT 1\<close>\<close>

definition first_active_service :: "store \<Rightarrow> service option" where
  "first_active_service st =
     first_row
       (order_by (\<lambda>a b. s_priority a < s_priority b \<or> (s_priority a = s_priority b \<and> s_id a < s_id b))
          (filter is_active (services st)))"

text \<open>
  The service a call without a requested ticket draws from: the requested service, else
  the agent's first assignment, else the counter's default service, else the first
  active service.
\<close>

definition resolve_service :: "store \<Rightarrow> int \<Rightarrow> int \<Rightarrow> int option \<Rightarrow> error + service" where
  "resolve_service st counterId agentId requestedServiceId =
     (let agentServices = agent_service_ids st agentId;
          hasAssignments = (0 < length agentServices)
      in if truthy_num requestedServiceId then
           (case active_service st (the requestedServiceId) of
              None \<Rightarrow> Inl (httpError 404 ''Requested service not found'')
            | Some serviceContext \<Rightarrow>
                if hasAssignments \<and> \<not> list_ex (\<lambda>sid. sid = the requestedServiceId) agentServices
                then Inl (httpError 403 ''Agent is not assigned to this service'')
                else Inr serviceContext)
         else
           (case (if hasAssignments then active_service st (hd agentServices)
                  else (case counter_default_service st counterId of
                          Some s \<Rightarrow> Some s
                        | None \<Rightarrow> first_active_service st)) of
              None \<Rightarrow> Inl (httpError 400 ''Unable to determine service for agent'')
            | Some serviceContext \<Rightarrow> Inr serviceContext))"

text \<open>
  The next ticket of a service as call-next reads it:
  \<open>WHERE t.service_id = ? AND t.state = 'waiting' ORDER BY t.created_at LIMIT 1\<close>.
\<close>

definition next_waiting_ticket :: "store \<Rightarrow> int \<Rightarrow> ticket option" where
  "next_waiting_ticket st serviceId =
     first_row
       (order_by created_asc
          (filter (\<lambda>t. service_id t = serviceId \<and> t_state t = Waiting \<and> service_of st t \<noteq> None)
                  (tickets st)))"

text \<open>The requested ticket: \<open>WHERE t.id = ? AND t.state = 'waiting'\<close>.\<close>

definition requested_waiting_ticket :: "store \<Rightarrow> int \<Rightarrow> ticket option" where
  "requested_waiting_ticket st ticketId =
     find (\<lambda>t. t_id t = ticketId \<and> t_state t = Waiting \<and> service_of st t \<noteq> None) (tickets st)"

definition agent_authorized :: "store \<Rightarrow> int \<Rightarrow> int \<Rightarrow> bool" where
  "agent_authorized st agentId serviceId =
     list_ex (\<lambda>a. as_agent_id a = agentId \<and> as_service_id a = serviceId) (agent_services st)"

definition select_ticket :: "store \<Rightarrow> int \<Rightarrow> int \<Rightarrow> int option \<Rightarrow> int option \<Rightarrow> error + ticket" where
  "select_ticket st counterId agentId requestedServiceId requestedTicketId =
     (if truthy_num requestedTicketId then
        (case requested_waiting_ticket st (the requestedTicketId) of
           None \<Rightarrow> Inl (httpError 404 ''Requested ticket is not available for calling'')
         | Some ticket \<Rightarrow>
             if \<not> agent_authorized st agentId (service_id ticket)
             then Inl (httpError 403 ''Agent is not authorized for this service'')
             else Inr ticket)
      else
        (case resolve_service st counterId agentId requestedServiceId of
           Inl e \<Rightarrow> Inl e
         | Inr serviceContext \<Rightarrow>
             (case next_waiting_ticket st (s_id serviceContext) of
                None \<Rightarrow> Inl (httpError 404 ''No tickets waiting in queue'')
              | Some ticket \<Rightarrow> Inr ticket)))"

definition mark_called :: "int \<Rightarrow> int \<Rightarrow> int \<Rightarrow> ticket \<Rightarrow> ticket" where
  "mark_called counterId agentId now t =
     t\<lparr>t_state := Called, called_at := Some now, served_at := Some now,
       counter_id := Some counterId, agent_id := Some agentId,
       recall_count := map_option (\<lambda>n. n + 1) (recall_count t)\<rparr>"

definition call_next_tx ::
  "int \<Rightarrow> int \<Rightarrow> int option \<Rightarrow> int option \<Rightarrow> int \<Rightarrow> store \<Rightarrow> (error + call_next_result) \<times> store" where
  "call_next_tx counterId agentId requestedServiceId requestedTicketId now st =
     (case select_ticket st counterId agentId requestedServiceId requestedTicketId of
        Inl e \<Rightarrow> (Inl e, st)
      | Inr ticket \<Rightarrow>
          (let st1 = update_tickets (\<lambda>t. t_id t = t_id ticket) (mark_called counterId agentId now) st;
               st2 = update_counters (\<lambda>c. c_id c = counterId)
                       (\<lambda>c. c\<lparr>current_ticket_id := Some (t_id ticket),
                              current_agent_id := Some agentId, c_state := Serving\<rparr>) st1
           in (Inr \<lparr> cn_id = t_id ticket,
                     cn_number = ticket_number ticket,
                     cn_serviceId = service_id ticket,
                     cn_serviceName = (case service_of st ticket of Some s \<Rightarrow> s_name s | None \<Rightarrow> []),
                     cn_customerName = (if truthy_str (customer_name ticket)
                                        then the (customer_name ticket) else ''Customer''),
                     cn_calledAt = now,
                     cn_queue = getQueueSnapshot st2 (service_id ticket) \<rparr>,
               st2)))"

definition post_call_next :: "request_body \<Rightarrow> int \<Rightarrow> conn \<Rightarrow> (error + call_next_result) \<times> conn" where
  "post_call_next body now c =
     (case parsePositiveInt (b_counterId body) ''counterId'' of
        Inl e \<Rightarrow> (Inl e, c)
      | Inr counterId \<Rightarrow>
     (case parsePositiveInt (b_agentId body) ''agentId'' of
        Inl e \<Rightarrow> (Inl e, c)
      | Inr agentId \<Rightarrow>
     (case parse_optional (b_serviceId body) ''serviceId'' None of
        Inl e \<Rightarrow> (Inl e, c)
      | Inr requestedServiceId \<Rightarrow>
     (case parse_optional (b_ticketId body) ''ticketId'' None of
        Inl e \<Rightarrow> (Inl e, c)
      | Inr requestedTicketId \<Rightarrow>
          withTransaction
            (call_next_tx counterId agentId requestedServiceId requestedTicketId now) None c))))"

subsection \<open>complete\<close>

record complete_result =
  cp_id :: int
  cp_number :: string
  cp_serviceId :: int
  cp_completedAt :: int
  cp_serviceDuration :: "int option"
  cp_actualWait :: "int option"
  cp_queue :: queue_snapshot

text \<open>
  \<open>WHERE t.id = ? AND t.counter_id = ? AND t.agent_id = ?\<close>, joined with the
  ticket's service.
\<close>

definition assigned_ticket :: "store \<Rightarrow> int \<Rightarrow> int \<Rightarrow> int \<Rightarrow> ticket option" where
  "assigned_ticket st ticketId counterId agentId =
     find (\<lambda>t. t_id t = ticketId \<and> counter_id t = Some counterId \<and> agent_id t = Some agentId
               \<and> service_of st t \<noteq> None)
          (tickets st)"

text \<open>\<open>ticket.served_at || ticket.called_at\<close>; a stored timestamp is a non-empty text.\<close>

definition servedAt_of :: "ticket \<Rightarrow> int option" where
  "servedAt_of ticket = (case served_at ticket of Some v \<Rightarrow> Some v | None \<Rightarrow> called_at ticket)"

definition actualWait_of :: "ticket \<Rightarrow> int option" where
  "actualWait_of ticket =
     (case (created_at ticket, servedAt_of ticket) of
        (Some created, Some served) \<Rightarrow> Some ((served - created) div 1000)
      | _ \<Rightarrow> None)"

definition serviceDuration_of :: "ticket \<Rightarrow> int \<Rightarrow> int option" where
  "serviceDuration_of ticket now =
     (case servedAt_of ticket of Some served \<Rightarrow> Some ((now - served) div 1000) | None \<Rightarrow> None)"

definition release_counter :: "int \<Rightarrow> store \<Rightarrow> store" where
  "release_counter counterId st =
     update_counters (\<lambda>c. c_id c = counterId)
       (\<lambda>c. c\<lparr>current_ticket_id := None, c_state := Available\<rparr>) st"

definition complete_tx ::
  "int \<Rightarrow> int \<Rightarrow> int \<Rightarrow> string option \<Rightarrow> int \<Rightarrow> store \<Rightarrow> (error + complete_result) \<times> store" where
  "complete_tx ticketId counterId agentId notes now st =
     (case assigned_ticket st ticketId counterId agentId of
        None \<Rightarrow> (Inl (httpError 404 ''Ticket not found or not assigned to this counter/agent''), st)
      | Some ticket \<Rightarrow>
          if t_state ticket = Completed then (Inl (httpError 400 ''Ticket already completed''), st)
          else
            (let actualWait = actualWait_of ticket;
                 serviceDuration = serviceDuration_of ticket now;
                 st1 = update_tickets (\<lambda>t. t_id t = ticketId)
                         (\<lambda>t. t\<lparr>t_state := Completed, completed_at := Some now,
                                actual_wait := actualWait, service_duration := serviceDuration,
                                t_notes := notes\<rparr>) st;
                 st2 = release_counter counterId st1
             in (Inr \<lparr> cp_id = ticketId,
                       cp_number = ticket_number ticket,
                       cp_serviceId = service_id ticket,
                       cp_completedAt = now,
                       cp_serviceDuration = serviceDuration,
                       cp_actualWait = actualWait,
                       cp_queue = getQueueSnapshot st2 (service_id ticket) \<rparr>,
                 st2)))"

text \<open>\<open>trim\<close> over the ASCII white space.\<close>

definition is_space :: "char \<Rightarrow> bool" where
  "is_space ch = (of_char ch = (32::nat) \<or> ((9::nat) \<le> of_char ch \<and> of_char ch \<le> (13::nat)))"

definition trim :: "string \<Rightarrow> string" where
  "trim s = rev (dropWhile is_space (rev (dropWhile is_space s)))"

definition parse_notes :: "string option \<Rightarrow> string option" where
  "parse_notes v = (case v of None \<Rightarrow> None | Some s \<Rightarrow> if trim s = [] then None else Some (trim s))"

definition post_complete :: "request_body \<Rightarrow> int \<Rightarrow> conn \<Rightarrow> (error + complete_result) \<times> conn" where
  "post_complete body now c =
     (case parsePositiveInt (b_ticketId body) ''ticketId'' of
        Inl e \<Rightarrow> (Inl e, c)
      | Inr ticketId \<Rightarrow>
     (case parsePositiveInt (b_counterId body) ''counterId'' of
        Inl e \<Rightarrow> (Inl e, c)
      | Inr counterId \<Rightarrow>
     (case parsePositiveInt (b_agentId body) ''agentId'' of
        Inl e \<Rightarrow> (Inl e, c)
      | Inr agentId \<Rightarrow>
          withTransaction
            (complete_tx ticketId counterId agentId (parse_notes (b_notes body)) now) None c)))"

subsection \<open>recycle\<close>

record recycle_result =
  rc_id :: int
  rc_number :: string
  rc_serviceId :: int
  rc_recycledAt :: int
  rc_requestedPosition :: "int option"
  rc_queue :: queue_snapshot

definition recycle_tx ::
  "int \<Rightarrow> int \<Rightarrow> int \<Rightarrow> int option \<Rightarrow> int \<Rightarrow> store \<Rightarrow> (error + recycle_result) \<times> store" where
  "recycle_tx ticketId counterId agentId requestedPosition now st =
     (case assigned_ticket st ticketId counterId agentId of
        None \<Rightarrow> (Inl (httpError 404 ''Ticket not found or not assigned to this counter/agent''), st)
      | Some ticket \<Rightarrow>
          if t_state ticket \<noteq> Called
          then (Inl (httpError 400 ''Ticket is not currently being served''), st)
          else
            (let st1 = update_tickets (\<lambda>t. t_id t = ticketId)
                         (\<lambda>t. t\<lparr>t_state := Waiting, counter_id := None, agent_id := None,
                                called_at := None, served_at := None\<rparr>) st;
                 st2 = release_counter counterId st1
             in (Inr \<lparr> rc_id = ticketId,
                       rc_number = ticket_number ticket,
                       rc_serviceId = service_id ticket,
                       rc_recycledAt = now,
                       rc_requestedPosition = requestedPosition,
                       rc_queue = getQueueSnapshot st2 (service_id ticket) \<rparr>,
                 st2)))"

definition post_recycle :: "request_body \<Rightarrow> int \<Rightarrow> conn \<Rightarrow> (error + recycle_result) \<times> conn" where
  "post_recycle body now c =
     (case parsePositiveInt (b_ticketId body) ''ticketId'' of
        Inl e \<Rightarrow> (Inl e, c)
      | Inr ticketId \<Rightarrow>
     (case parsePositiveInt (b_counterId body) ''counterId'' of
        Inl e \<Rightarrow> (Inl e, c)
      | Inr counterId \<Rightarrow>
     (case parsePositiveInt (b_agentId body) ''agentId'' of
        Inl e \<Rightarrow> (Inl e, c)
      | Inr agentId \<Rightarrow>
     (case parse_optional (b_position body) ''position'' (Some 3) of
        Inl e \<Rightarrow> (Inl e, c)
      | Inr requestedPosition \<Rightarrow>
          withTransaction (recycle_tx ticketId counterId agentId requestedPosition now) None c))))"

subsection \<open>transfer\<close>

record transfer_result =
  tr_id :: int
  tr_oldNumber :: string
  tr_newNumber :: string
  tr_serviceId :: int
  tr_serviceName :: string
  tr_originalServiceId :: int
  tr_transferredAt :: int
  tr_priority :: int
  tr_customerName :: "string option"
  tr_customerPhone :: "string option"
  tr_customerEmail :: "string option"
  tr_createdAt :: int
  tr_fromQueue :: queue_snapshot
  tr_toQueue :: queue_snapshot

text \<open>
  \<open>WHERE t.id = ? AND t.state = 'called' AND t.counter_id = ? AND t.agent_id = ?\<close>,
  joined with the ticket's service.
\<close>

definition called_ticket :: "store \<Rightarrow> int \<Rightarrow> int \<Rightarrow> int \<Rightarrow> ticket option" where
  "called_ticket st ticketId counterId agentId =
     find (\<lambda>t. t_id t = ticketId \<and> t_state t = Called \<and> counter_id t = Some counterId
               \<and> agent_id t = Some agentId \<and> service_of st t \<noteq> None)
          (tickets st)"

text \<open>
  The row inserted into the target service. Its identifier is assigned by the store on
  insertion.
\<close>

definition transferred_row :: "ticket \<Rightarrow> int \<Rightarrow> int \<Rightarrow> ticket" where
  "transferred_row ticket targetServiceId now =
     \<lparr> t_id = 0,
       ticket_number = ticket_number ticket,
       service_id = targetServiceId,
       t_state = Waiting,
       priority = Some (case priority ticket of Some p \<Rightarrow> p | None \<Rightarrow> 0),
       created_at = Some (case created_at ticket of Some v \<Rightarrow> v | None \<Rightarrow> now),
       called_at = None,
       served_at = None,
       completed_at = None,
       estimated_wait = estimated_wait ticket,
       actual_wait = None,
       service_duration = None,
       counter_id = None,
       agent_id = None,
       recall_count = Some (case recall_count ticket of Some n \<Rightarrow> n | None \<Rightarrow> 0),
       original_service_id =
         Some (if truthy_num (original_service_id ticket)
               then the (original_service_id ticket) else service_id ticket),
       transferred_at = Some now,
       t_notes = t_notes ticket,
       customer_name = or_null (customer_name ticket),
       customer_phone = or_null (customer_phone ticket),
       customer_email = or_null (customer_email ticket) \<rparr>"

definition delete_ticket :: "int \<Rightarrow> store \<Rightarrow> store" where
  "delete_ticket ticketId st = st\<lparr>tickets := filter (\<lambda>t. t_id t \<noteq> ticketId) (tickets st)\<rparr>"

definition transfer_tx ::
  "int \<Rightarrow> int \<Rightarrow> int \<Rightarrow> int \<Rightarrow> int \<Rightarrow> store \<Rightarrow> (error + transfer_result) \<times> store" where
  "transfer_tx ticketId targetServiceId counterId agentId now st =
     (case called_ticket st ticketId counterId agentId of
        None \<Rightarrow> (Inl (httpError 404 ''Ticket not found or not in called state''), st)
      | Some ticket \<Rightarrow>
          (case active_service st targetServiceId of
             None \<Rightarrow> (Inl (httpError 400 ''Invalid target service''), st)
           | Some targetService \<Rightarrow>
               if s_id targetService = service_id ticket
               then (Inl (httpError 400 ''Cannot transfer to the same service''), st)
               else
                 (let fromServiceId = service_id ticket;
                      row = transferred_row ticket targetServiceId now;
                      (newTicketId, st1) = insert_ticket row st;
                      st2 = release_counter counterId st1;
                      st3 = delete_ticket ticketId st2
                  in (Inr \<lparr> tr_id = newTicketId,
                            tr_oldNumber = ticket_number ticket,
                            tr_newNumber = ticket_number row,
                            tr_serviceId = targetServiceId,
                            tr_serviceName = s_name targetService,
                            tr_originalServiceId = the (original_service_id row),
                            tr_transferredAt = now,
                            tr_priority = the (priority row),
                            tr_customerName = customer_name row,
                            tr_customerPhone = customer_phone row,
                            tr_customerEmail = customer_email row,
                            tr_createdAt = the (created_at row),
                            tr_fromQueue = getQueueSnapshot st3 fromServiceId,
                            tr_toQueue = getQueueSnapshot st3 targetServiceId \<rparr>,
                      st3))))"

definition post_transfer :: "request_body \<Rightarrow> int \<Rightarrow> conn \<Rightarrow> (error + transfer_result) \<times> conn" where
  "post_transfer body now c =
     (case parsePositiveInt (b_ticketId body) ''ticketId'' of
        Inl e \<Rightarrow> (Inl e, c)
      | Inr ticketId \<Rightarrow>
     (case parsePositiveInt (b_targetServiceId body) ''targetServiceId'' of
        Inl e \<Rightarrow> (Inl e, c)
      | Inr targetServiceId \<Rightarrow>
     (case parsePositiveInt (b_counterId body) ''counterId'' of
        Inl e \<Rightarrow> (Inl e, c)
      | Inr counterId \<Rightarrow>
     (case parsePositiveInt (b_agentId body) ''agentId'' of
        Inl e \<Rightarrow> (Inl e, c)
      | Inr agentId \<Rightarrow>
          withTransaction (transfer_tx ticketId targetServiceId counterId agentId now) None c))))"

section \<open>Ticket intake (kiosk route)\<close>

text \<open>
  The payload after \<open>validateTicketPayload\<close>: a positive service identifier, a priority
  between 0 and 2 and the customer fields, each trimmed, cut to its maximal length and
  \<open>null\<close> when empty. The insertion names neither \<open>created_at\<close> nor
  \<open>recall_count\<close>; the columns are taken to default to the current time and to 0.
\<close>

record ticket_payload =
  p_serviceId :: int
  p_priority :: int
  p_customerName :: "string option"
  p_customerPhone :: "string option"
  p_customerEmail :: "string option"

record created_ticket =
  ct_id :: int
  ct_ticketNumber :: string
  ct_serviceId :: int
  ct_serviceName :: string
  ct_state :: ticket_state
  ct_estimatedWait :: int
  ct_createdAt :: int
  ct_queuePosition :: nat
  ct_customerName :: string

definition next_number :: "service \<Rightarrow> int" where
  "next_number service =
     max (case current_number service of Some n \<Rightarrow> n | None \<Rightarrow> 0)
         ((case range_start service of Some n \<Rightarrow> n | None \<Rightarrow> 1) - 1) + 1"

definition create_ticket_tx ::
  "ticket_payload \<Rightarrow> int \<Rightarrow> store \<Rightarrow> (error + created_ticket) \<times> store" where
  "create_ticket_tx payload now st =
     (case active_service st (p_serviceId payload) of
        None \<Rightarrow> (Inl (httpError 404 ''Service not found or inactive''), st)
      | Some service \<Rightarrow>
          (let nextNumber = next_number service
           in if truthy_num (range_end service) \<and> the (range_end service) < nextNumber
              then (Inl (httpError 409 ''Service ticket range exhausted''), st)
              else
                (let ticketNumber = format_ticket_number (prefix service) nextNumber;
                     st1 = update_services (\<lambda>s. s_id s = p_serviceId payload)
                             (\<lambda>s. s\<lparr>current_number := Some nextNumber\<rparr>) st;
                     estimatedServiceTime =
                       (if truthy_num (estimated_service_time service)
                        then the (estimated_service_time service) else 300);
                     estimatedWait = max 0 (estimatedServiceTime * (nextNumber - 1));
                     (lastID, st2) =
                       insert_ticket
                         \<lparr> t_id = 0,
                           ticket_number = ticketNumber,
                           service_id = p_serviceId payload,
                           t_state = Waiting,
                           priority = Some (p_priority payload),
                           created_at = Some now,
                           called_at = None,
                           served_at = None,
                           completed_at = None,
                           estimated_wait = Some estimatedWait,
                           actual_wait = None,
                           service_duration = None,
                           counter_id = None,
                           agent_id = None,
                           recall_count = Some 0,
                           original_service_id = None,
                           transferred_at = None,
                           t_notes = None,
                           customer_name = p_customerName payload,
                           customer_phone = p_customerPhone payload,
                           customer_email = p_customerEmail payload \<rparr> st1;
                     queueCount = length (filter (\<lambda>t. service_id t = p_serviceId payload
                                                        \<and> t_state t = Waiting) (tickets st2))
                 in (Inr \<lparr> ct_id = lastID,
                           ct_ticketNumber = ticketNumber,
                           ct_serviceId = p_serviceId payload,
                           ct_serviceName = s_name service,
                           ct_state = Waiting,
                           ct_estimatedWait = estimatedWait,
                           ct_createdAt = now,
                           ct_queuePosition = queueCount,
                           ct_customerName = (if truthy_str (p_customerName payload)
                                              then the (p_customerName payload) else ''Anonymous'') \<rparr>,
                     st2))))"

definition post_tickets :: "ticket_payload \<Rightarrow> int \<Rightarrow> conn \<Rightarrow> (error + created_ticket) \<times> conn" where
  "post_tickets payload now c = withTransaction (create_ticket_tx payload now) None c"

section \<open>Reset and preset service\<close>

subsection \<open>presetServiceQueue\<close>

record inserted_ticket =
  it_id :: int
  it_ticket_number :: string
  it_created_at :: int
  it_priority :: int

record preset_result =
  pr_insertedTickets :: "inserted_ticket list"
  pr_skippedTickets :: "string list"
  pr_finalNumber :: int
  pr_queueSnapshot :: queue_snapshot

text \<open>
  One round of the insertion loop, for the offset \<open>i\<close>. The clock is read once per
  call of the service; the creation time of the \<open>k\<close>-th inserted row is \<open>k\<close>
  milliseconds later.
\<close>

definition preset_step ::
  "service \<Rightarrow> int \<Rightarrow> int \<Rightarrow> int \<Rightarrow> int \<Rightarrow> int \<Rightarrow> int \<Rightarrow> int
     \<Rightarrow> store \<times> inserted_ticket list \<times> string list
     \<Rightarrow> store \<times> inserted_ticket list \<times> string list" where
  "preset_step service serviceId startNumber priority_arg existingWaiting estimatedServiceTime now i acc =
     (case acc of (st, insertedTickets, skippedTickets) \<Rightarrow>
        (let numberValue = startNumber + i;
             ticketNumber = format_ticket_number (prefix service) numberValue
         in if list_ex (\<lambda>t. service_id t = serviceId \<and> ticket_number t = ticketNumber) (tickets st)
            then (st, insertedTickets, skippedTickets @ [ticketNumber])
            else
              (let queuePosition = existingWaiting + int (length insertedTickets);
                   createdAt = now + int (length insertedTickets);
                   estimatedWait = estimatedServiceTime * queuePosition;
                   (lastID, st') =
                     insert_ticket
                       \<lparr> t_id = 0,
                         ticket_number = ticketNumber,
                         service_id = serviceId,
                         t_state = Waiting,
                         priority = Some priority_arg,
                         created_at = Some createdAt,
                         called_at = None,
                         served_at = None,
                         completed_at = None,
                         estimated_wait = Some estimatedWait,
                         actual_wait = None,
                         service_duration = None,
                         counter_id = None,
                         agent_id = None,
                         recall_count = Some 0,
                         original_service_id = None,
                         transferred_at = None,
                         t_notes = None,
                         customer_name = None,
                         customer_phone = None,
                         customer_email = None \<rparr> st
               in (st',
                   insertedTickets @ [\<lparr> it_id = lastID, it_ticket_number = ticketNumber,
                                         it_created_at = createdAt, it_priority = priority_arg \<rparr>],
                   skippedTickets))))"

text \<open>
  The snapshot the preset returns reads \<open>state = 'waiting'\<close> only and counts its rows;
  its rows carry fewer keys than those of the snapshot builder.
\<close>

definition preset_snapshot :: "store \<Rightarrow> int \<Rightarrow> queue_snapshot" where
  "preset_snapshot st serviceId =
     (let queueRows = order_by priority_desc_created_asc
                        (filter (\<lambda>t. service_id t = serviceId \<and> t_state t = Waiting) (tickets st))
      in \<lparr> q_serviceId = serviceId,
           q_waiting = length queueRows,
           q_serving = length (filter (\<lambda>t. service_id t = serviceId \<and> t_state t = Called) (tickets st)),
           q_tickets = map snapshot_row queueRows \<rparr>)"

definition preset_tx ::
  "int \<Rightarrow> int \<Rightarrow> int \<Rightarrow> int \<Rightarrow> int \<Rightarrow> store \<Rightarrow> (error + preset_result) \<times> store" where
  "preset_tx serviceId startNumber count_arg priority_arg now st =
     (case active_service st serviceId of
        None \<Rightarrow> (Inl (Error None ''Service not found or inactive''), st)
      | Some service \<Rightarrow>
          (let existingWaiting =
                 int (length (filter (\<lambda>t. service_id t = serviceId
                                          \<and> (t_state t = Waiting \<or> t_state t = Recycled \<or> t_state t = Called))
                                     (tickets st)));
               estimatedServiceTime =
                 (if truthy_num (estimated_service_time service)
                  then the (estimated_service_time service) else 300);
               (st1, insertedTickets, skippedTickets) =
                 fold (preset_step service serviceId startNumber priority_arg
                         existingWaiting estimatedServiceTime now)
                      [1..count_arg] (st, [], []);
               targetCurrentNumber = startNumber + count_arg;
               newCurrentNumber =
                 max (if truthy_num (current_number service) then the (current_number service) else 0)
                     targetCurrentNumber;
               st2 = update_services (\<lambda>s. s_id s = serviceId)
                       (\<lambda>s. s\<lparr>current_number := Some newCurrentNumber\<rparr>) st1
           in (Inr \<lparr> pr_insertedTickets = insertedTickets,
                     pr_skippedTickets = skippedTickets,
                     pr_finalNumber = newCurrentNumber,
                     pr_queueSnapshot = preset_snapshot st2 serviceId \<rparr>,
               st2)))"

text \<open>
  The arguments are JavaScript numbers: an integer, or no integer at all (\<open>NaN\<close>, a
  fraction), for which \<open>Number.isInteger\<close> is false.
\<close>

definition presetServiceQueue ::
  "int option \<Rightarrow> int option \<Rightarrow> int option \<Rightarrow> int \<Rightarrow> int \<Rightarrow> conn \<Rightarrow> (error + preset_result) \<times> conn" where
  "presetServiceQueue serviceId startNumber count_arg priority_arg now c =
     (if serviceId = None \<or> the serviceId \<le> 0
      then (Inl (Error None ''serviceId must be a positive integer''), c)
      else if startNumber = None \<or> the startNumber < 0
      then (Inl (Error None ''startNumber must be zero or positive integer''), c)
      else if count_arg = None \<or> the count_arg \<le> 0
      then (Inl (Error None ''count must be a positive integer''), c)
      else if 500 < the count_arg
      then (Inl (Error None ''count may not exceed 500 tickets per request''), c)
      else withTransaction
             (preset_tx (the serviceId) (the startNumber) (the count_arg) priority_arg now) None c)"

text \<open>
  The admin route reads its numbers with \<open>parseInt(value, 10)\<close>, which converts the value
  to a string, skips leading white space and a sign, and reads the decimal digits that
  follow; without a digit there the result is \<open>NaN\<close>. A field of the body is its string
  conversion, or absent.
\<close>

definition is_digit :: "char \<Rightarrow> bool" where
  "is_digit ch = ((48::nat) \<le> of_char ch \<and> of_char ch \<le> (57::nat))"

definition digits_value :: "string \<Rightarrow> int" where
  "digits_value ds = foldl (\<lambda>acc ch. 10 * acc + (int (of_char ch) - 48)) 0 ds"

definition parse_digits :: "string \<Rightarrow> int option" where
  "parse_digits s =
     (let ds = takeWhile is_digit s in if ds = [] then None else Some (digits_value ds))"

definition parseInt :: "string option \<Rightarrow> int option" where
  "parseInt v =
     (case v of
        None \<Rightarrow> None
      | Some s \<Rightarrow>
          (case dropWhile is_space s of
             [] \<Rightarrow> None
           | ch # rest \<Rightarrow>
               if ch = CHR ''-'' then map_option uminus (parse_digits rest)
               else if ch = CHR ''+'' then parse_digits rest
               else parse_digits (ch # rest)))"

text \<open>
  The test \<open>/service|count|start/i\<close> of an error message: one of the three words occurs
  in it, letter case aside.
\<close>

definition toLowerCase :: "string \<Rightarrow> string" where
  "toLowerCase s =
     map (\<lambda>ch. if (65::nat) \<le> of_char ch \<and> of_char ch \<le> (90::nat)
                then char_of (of_char ch + (32::nat)) else ch) s"

fun starts_with :: "string \<Rightarrow> string \<Rightarrow> bool" where
  "starts_with [] s = True"
| "starts_with (p # ps) [] = False"
| "starts_with (p # ps) (x # xs) = (p = x \<and> starts_with ps xs)"

fun includes_text :: "string \<Rightarrow> string \<Rightarrow> bool" where
  "includes_text p [] = starts_with p []"
| "includes_text p (x # xs) = (starts_with p (x # xs) \<or> includes_text p xs)"

definition service_count_start_test :: "string \<Rightarrow> bool" where
  "service_count_start_test msg =
     (let m = toLowerCase msg
      in includes_text ''service'' m \<or> includes_text ''count'' m \<or> includes_text ''start'' m)"

text \<open>
  The admin route checks the three numbers itself and answers 400 on its own; otherwise
  it calls the service and answers 200 with the result. An error thrown by the service
  is answered with its message, with status 400 when the message passes the test above
  and 500 when it does not. The response is the status and the body's \<open>error\<close> or
  \<open>result\<close>.
\<close>

record preset_body =
  pb_serviceId :: "string option"
  pb_startNumber :: "string option"
  pb_count :: "string option"
  pb_priority :: "string option"

definition post_preset_queue ::
  "preset_body \<Rightarrow> int \<Rightarrow> conn \<Rightarrow> (nat \<times> (string + preset_result)) \<times> conn" where
  "post_preset_queue body now c =
     (let serviceId = parseInt (pb_serviceId body);
          startNumber = parseInt (pb_startNumber body);
          count_arg = parseInt (pb_count body);
          priorityParsed =
            (if pb_priority body = None then Some 0 else parseInt (pb_priority body));
          priority_arg = (case priorityParsed of None \<Rightarrow> 0 | Some p \<Rightarrow> max 0 (min p 2))
      in if serviceId = None \<or> the serviceId \<le> 0
         then ((400, Inl ''serviceId must be a positive integer''), c)
         else if startNumber = None \<or> the startNumber < 0
         then ((400, Inl ''startNumber must be zero or a positive integer''), c)
         else if count_arg = None \<or> the count_arg \<le> 0
         then ((400, Inl ''count must be a positive integer''), c)
         else (case presetServiceQueue serviceId startNumber count_arg priority_arg now c of
                 (Inr result, c') \<Rightarrow> ((200, Inr result), c')
               | (Inl err, c') \<Rightarrow>
                   ((if service_count_start_test (message err) then 400 else 500,
                     Inl (if message err = [] then ''Failed to create preset queue''
                          else message err)), c')))"

subsection \<open>performSystemReset\<close>

text \<open>The module-level variables of the reset service that the reset reads or writes.\<close>

record reset_summary =
  rs_deletedTickets :: nat
  rs_services :: "(int \<times> string \<times> string) list"

record reset_module =
  resetInProgress :: bool
  lastResetAt :: "int option"
  lastResetReason :: "string option"
  lastResetSummary :: "reset_summary option"

datatype reset_outcome =
    Skipped string
  | ResetDone reset_summary int string

definition reset_tx :: "store \<Rightarrow> (error + reset_summary) \<times> store" where
  "reset_tx st =
     (let deletedTickets = length (tickets st);
          st1 = update_counters (\<lambda>c. True)
                  (\<lambda>c. c\<lparr>current_ticket_id := None,
                         c_state := (if c_state c = Serving then Available else c_state c)\<rparr>) st;
          st2 = st1\<lparr>tickets := []\<rparr>;
          st3 = st2\<lparr>ticket_seq := None\<rparr>;
          st4 = update_services (\<lambda>s. True) (\<lambda>s. s\<lparr>current_number := Some 0\<rparr>) st3
      in (Inr \<lparr> rs_deletedTickets = deletedTickets,
                rs_services = map (\<lambda>s. (s_id s, s_name s, prefix s))
                                  (filter is_active (services st4)) \<rparr>,
          st4))"

definition performSystemReset ::
  "string \<Rightarrow> int \<Rightarrow> reset_module \<times> conn \<Rightarrow> (error + reset_outcome) \<times> reset_module \<times> conn" where
  "performSystemReset reason now world =
     (case world of (m, c) \<Rightarrow>
        if resetInProgress m
        then (Inr (Skipped ''Reset already in progress''), m, c)
        else
          (let m1 = m\<lparr>resetInProgress := True\<rparr>
           in case withTransaction reset_tx None c of
                (Inl err, c') \<Rightarrow> (Inl err, m1\<lparr>resetInProgress := False\<rparr>, c')
              | (Inr result, c') \<Rightarrow>
                  (Inr (ResetDone result now reason),
                   m1\<lparr>lastResetAt := Some now, lastResetReason := Some reason,
                      lastResetSummary := Some result, resetInProgress := False\<rparr>,
                   c')))"

section \<open>Example data\<close>

text \<open>
  A small database on which the theorems below are instantiated: two active services
  with prefixes A and B and the range 1 to 999, one counter, and agent 7 assigned to
  service 1.
\<close>

definition mk_ticket :: "int \<Rightarrow> string \<Rightarrow> int \<Rightarrow> ticket_state \<Rightarrow> int \<Rightarrow> int \<Rightarrow> ticket" where
  "mk_ticket i num sid s prio created =
     \<lparr> t_id = i, ticket_number = num, service_id = sid, t_state = s,
       priority = Some prio, created_at = Some created,
       called_at = None, served_at = None, completed_at = None,
       estimated_wait = Some 0, actual_wait = None, service_duration = None,
       counter_id = None, agent_id = None, recall_count = Some 0,
       original_service_id = None, transferred_at = None, t_notes = None,
       customer_name = None, customer_phone = None, customer_email = None \<rparr>"

definition mk_service :: "int \<Rightarrow> string \<Rightarrow> string \<Rightarrow> service" where
  "mk_service i nm pfx =
     \<lparr> s_id = i, s_name = nm, prefix = pfx, range_start = Some 1, range_end = Some 999,
       current_number = Some 0, estimated_service_time = Some 300, is_active = True,
       s_priority = 0 \<rparr>"

definition mk_counter :: "int \<Rightarrow> counter_state \<Rightarrow> int option \<Rightarrow> int option \<Rightarrow> counter" where
  "mk_counter i s agent tick =
     \<lparr> c_id = i, c_state = s, current_agent_id = agent, current_ticket_id = tick,
       default_service_id = None \<rparr>"

definition mk_store :: "ticket list \<Rightarrow> counter list \<Rightarrow> store" where
  "mk_store ts cs =
     \<lparr> tickets = ts, counters = cs,
       services = [mk_service 1 ''General'' ''A'', mk_service 2 ''Billing'' ''B''],
       agent_services = [\<lparr> as_agent_id = 7, as_service_id = 1, as_priority = 0 \<rparr>],
       ticket_seq = None \<rparr>"

definition mk_conn :: "store \<Rightarrow> conn" where
  "mk_conn st = \<lparr> data = st, saved = None, issued = [] \<rparr>"

text \<open>A ticket being served: called at counter 3 by agent 7 at time \<open>at\<close>.\<close>

definition serving :: "int \<Rightarrow> ticket \<Rightarrow> ticket" where
  "serving at t =
     t\<lparr>t_state := Called, called_at := Some at, served_at := Some at,
       counter_id := Some 3, agent_id := Some 7\<rparr>"

definition terminal_body :: "int \<Rightarrow> request_body" where
  "terminal_body ticketId =
     \<lparr> b_ticketId = Some ticketId, b_counterId = Some 3, b_agentId = Some 7,
       b_serviceId = None, b_targetServiceId = Some 2, b_position = None, b_notes = None \<rparr>"

text \<open>
  Ticket A001 being served at counter 3 by agent 7, and the same database after the
  ticket was completed at time 5000.
\<close>

definition served_ticket :: ticket where
  "served_ticket = serving 3000 (mk_ticket 1 ''A001'' 1 Waiting 0 1000)"

definition serving_conn :: conn where
  "serving_conn = mk_conn (mk_store [served_ticket] [mk_counter 3 Serving (Some 7) (Some 1)])"

definition completed_ticket :: ticket where
  "completed_ticket =
     served_ticket\<lparr>t_state := Completed, completed_at := Some 5000,
                   actual_wait := Some 2, service_duration := Some 2\<rparr>"

definition completed_conn :: conn where
  "completed_conn =
     (mk_conn (mk_store [completed_ticket] [mk_counter 3 Available (Some 7) None]))
       \<lparr>issued := [Begin None, Commit]\<rparr>"

text \<open>A kiosk request for service 1 without customer details.\<close>

definition walk_in :: ticket_payload where
  "walk_in = \<lparr> p_serviceId = 1, p_priority = 0, p_customerName = None,
               p_customerPhone = None, p_customerEmail = None \<rparr>"

text \<open>A call-next request for a service, and a database with one ticket waiting in service 2.\<close>

definition service_request :: "int \<Rightarrow> int \<Rightarrow> request_body" where
  "service_request agentId serviceId =
     \<lparr> b_ticketId = None, b_counterId = Some 3, b_agentId = Some agentId,
       b_serviceId = Some serviceId, b_targetServiceId = None, b_position = None,
       b_notes = None \<rparr>"

definition billing_conn :: conn where
  "billing_conn =
     mk_conn (mk_store [mk_ticket 1 ''B001'' 2 Waiting 0 1000] [mk_counter 3 Available None None])"

text \<open>
  A call-next request that names no service, and a database with a ticket waiting in
  each service, where counter 4 has service 2 as its default service and counter 3 has
  none.
\<close>

definition counter_request :: "int \<Rightarrow> int \<Rightarrow> request_body" where
  "counter_request agentId counterId =
     \<lparr> b_ticketId = None, b_counterId = Some counterId, b_agentId = Some agentId,
       b_serviceId = None, b_targetServiceId = None, b_position = None, b_notes = None \<rparr>"

definition two_queues_conn :: conn where
  "two_queues_conn =
     mk_conn (mk_store [mk_ticket 1 ''A001'' 1 Waiting 0 1000, mk_ticket 2 ''B001'' 2 Waiting 0 2000]
                [mk_counter 3 Available None None,
                 (mk_counter 4 Available None None)\<lparr>default_service_id := Some 2\<rparr>])"

text \<open>Ticket A001 with priority 2 and customer details, being served at counter 3.\<close>

definition named_ticket :: ticket where
  "named_ticket =
     served_ticket\<lparr>priority := Some 2, customer_name := Some ''Ada Lovelace'',
                   customer_phone := Some ''555-0100''\<rparr>"

definition named_conn :: conn where
  "named_conn = mk_conn (mk_store [named_ticket] [mk_counter 3 Serving (Some 7) (Some 1)])"

section \<open>Transactional atomicity\<close>

lemma withTransaction_throw:
  assumes "saved c = None" and "work (data c) = (Inl err, d')"
  shows "withTransaction work m c =
           (Inl err, c\<lparr>issued := issued c @ [beginStatement m, Rollback]\<rparr>)"
  using assms
  by (simp add: withTransaction_def rollback_and_rethrow_def beginStatement_def Let_def)

lemma withTransaction_return:
  assumes "saved c = None" and "work (data c) = (Inr r, d')"
  shows "withTransaction work m c =
           (Inr r, c\<lparr>data := d', issued := issued c @ [beginStatement m, Commit]\<rparr>)"
  using assms
  by (simp add: withTransaction_def rollback_and_rethrow_def beginStatement_def Let_def)

lemma withTransaction_nested:
  assumes "saved c = Some d0"
  shows "withTransaction work m c =
           (Inl (Error None ''SQLITE_ERROR: cannot start a transaction within a transaction''),
            c\<lparr>issued := issued c @ [beginStatement m]\<rparr>)"
  using assms
  by (simp add: withTransaction_def beginStatement_def Let_def)

text \<open>
  C8. A unit of work run through \<open>withTransaction\<close> on a connection with no open
  transaction: if the work throws, whatever it wrote before, \<open>ROLLBACK\<close> follows
  \<open>BEGIN\<close>, the same error is thrown again and the database is as it was; if the work
  returns, \<open>COMMIT\<close> follows \<open>BEGIN\<close>, the result is returned as it is and the
  database is as the work left it; and \<open>COMMIT\<close> is among the statements issued only
  if the work returned.
\<close>

theorem withTransaction_atomic:
  assumes "saved c = None"
  shows "(work (data c) = (Inl err, d') \<longrightarrow>
            withTransaction work m c
              = (Inl err, c\<lparr>issued := issued c @ [beginStatement m, Rollback]\<rparr>))
       \<and> (work (data c) = (Inr r, d') \<longrightarrow>
            withTransaction work m c
              = (Inr r, c\<lparr>data := d', issued := issued c @ [beginStatement m, Commit]\<rparr>))
       \<and> (Commit \<in> set (drop (length (issued c)) (issued (snd (withTransaction work m c))))
            \<longrightarrow> \<not> isl (fst (work (data c))))"
proof (intro conjI impI)
  assume "work (data c) = (Inl err, d')"
  with assms show "withTransaction work m c
              = (Inl err, c\<lparr>issued := issued c @ [beginStatement m, Rollback]\<rparr>)"
    by (rule withTransaction_throw)
next
  assume "work (data c) = (Inr r, d')"
  with assms show "withTransaction work m c
              = (Inr r, c\<lparr>data := d', issued := issued c @ [beginStatement m, Commit]\<rparr>)"
    by (rule withTransaction_return)
next
  assume issued_commit:
    "Commit \<in> set (drop (length (issued c)) (issued (snd (withTransaction work m c))))"
  show "\<not> isl (fst (work (data c)))"
  proof
    assume "isl (fst (work (data c)))"
    then obtain e d where "work (data c) = (Inl e, d)"
      by (cases "work (data c)") (auto simp: isl_def)
    with assms have "withTransaction work m c
              = (Inl e, c\<lparr>issued := issued c @ [beginStatement m, Rollback]\<rparr>)"
      by (rule withTransaction_throw)
    with issued_commit show False
      by (simp add: beginStatement_def)
  qed
qed

text \<open>
  On the example database: a work that deletes every ticket and then throws leaves the
  tickets in place; the same work returning the number of rows it saw commits the
  deletion.
\<close>

theorem withTransaction_atomic_witness:
  "withTransaction (\<lambda>st. (Inl (httpError 404 ''gone'') :: error + nat, st\<lparr>tickets := []\<rparr>)) None
       (mk_conn (mk_store [mk_ticket 1 ''A001'' 1 Waiting 0 1000] []))
     = (Inl (httpError 404 ''gone''),
        (mk_conn (mk_store [mk_ticket 1 ''A001'' 1 Waiting 0 1000] []))
          \<lparr>issued := [Begin None, Rollback]\<rparr>)
   \<and> withTransaction (\<lambda>st. (Inr (length (tickets st)), st\<lparr>tickets := []\<rparr>)) None
       (mk_conn (mk_store [mk_ticket 1 ''A001'' 1 Waiting 0 1000] []))
     = (Inr 1,
        (mk_conn (mk_store [mk_ticket 1 ''A001'' 1 Waiting 0 1000] []))
          \<lparr>data := mk_store [] [], issued := [Begin None, Commit]\<rparr>)"
  using
    withTransaction_atomic [where c = "mk_conn (mk_store [mk_ticket 1 ''A001'' 1 Waiting 0 1000] [])"
      and work = "\<lambda>st. (Inl (httpError 404 ''gone'') :: error + nat, st\<lparr>tickets := []\<rparr>)"
      and err = "httpError 404 ''gone''" and d' = "mk_store [] []" and m = None]
    withTransaction_atomic [where c = "mk_conn (mk_store [mk_ticket 1 ''A001'' 1 Waiting 0 1000] [])"
      and work = "\<lambda>st. (Inr (length (tickets st)), st\<lparr>tickets := []\<rparr>)"
      and r = 1 and d' = "mk_store [] []" and m = None]
  by (simp add: mk_conn_def mk_store_def beginStatement_def)

section \<open>System reset and queue preset\<close>

text \<open>
  C7. Whenever \<open>performSystemReset\<close> is entered while the guard
  \<open>resetInProgress\<close> is set, it returns the skipped result at once: the module
  variables and the connection (the tables, the open transaction and the list of
  statements issued) are returned as they were, so no transaction is opened and no table
  is read or written, and the result does not depend on the database.
\<close>

theorem performSystemReset_skips_while_in_progress:
  assumes "resetInProgress m"
  shows "performSystemReset reason now (m, c)
           = (Inr (Skipped ''Reset already in progress''), m, c)"
  using assms by (simp add: performSystemReset_def)

text \<open>
  On the example database with one waiting ticket: with the guard set the call is
  skipped and the ticket stays; with the guard clear the same call deletes it.
\<close>

theorem performSystemReset_skips_while_in_progress_witness:
  "performSystemReset ''manual'' 5000
     (\<lparr>resetInProgress = True, lastResetAt = None, lastResetReason = None,
        lastResetSummary = None\<rparr>,
      mk_conn (mk_store [mk_ticket 1 ''A001'' 1 Waiting 0 1000] []))
   = (Inr (Skipped ''Reset already in progress''),
      \<lparr>resetInProgress = True, lastResetAt = None, lastResetReason = None,
        lastResetSummary = None\<rparr>,
      mk_conn (mk_store [mk_ticket 1 ''A001'' 1 Waiting 0 1000] []))
   \<and> tickets (data (snd (snd (performSystemReset ''manual'' 5000
        (\<lparr>resetInProgress = False, lastResetAt = None, lastResetReason = None,
           lastResetSummary = None\<rparr>,
         mk_conn (mk_store [mk_ticket 1 ''A001'' 1 Waiting 0 1000] [])))))) = []"
proof -
  have "tickets (data (snd (snd (performSystemReset ''manual'' 5000
        (\<lparr>resetInProgress = False, lastResetAt = None, lastResetReason = None,
           lastResetSummary = None\<rparr>,
         mk_conn (mk_store [mk_ticket 1 ''A001'' 1 Waiting 0 1000] [])))))) = []"
    by code_simp
  then show ?thesis
    using performSystemReset_skips_while_in_progress
      [of "\<lparr>resetInProgress = True, lastResetAt = None, lastResetReason = None,
             lastResetSummary = None\<rparr>" "''manual''" 5000
          "mk_conn (mk_store [mk_ticket 1 ''A001'' 1 Waiting 0 1000] [])"]
    by simp
qed

text \<open>
  C6, as the code has it. \<open>presetServiceQueue\<close> refuses a \<open>serviceId\<close> that is
  no positive integer, a \<open>startNumber\<close> that is no integer or is negative, a
  \<open>count\<close> that is no positive integer and a \<open>count\<close> above 500; it does so before
  any statement is issued, and the connection is returned as it was. A
  \<open>startNumber\<close> of zero is accepted: the check is \<open>startNumber < 0\<close> and its
  message reads "zero or positive".
\<close>

theorem presetServiceQueue_rejects_before_transaction:
  assumes "(case serviceId of None \<Rightarrow> True | Some v \<Rightarrow> v \<le> 0)
         \<or> (case startNumber of None \<Rightarrow> True | Some v \<Rightarrow> v < 0)
         \<or> (case count_arg of None \<Rightarrow> True | Some v \<Rightarrow> v \<le> 0 \<or> 500 < v)"
  shows "isl (fst (presetServiceQueue serviceId startNumber count_arg priority_arg now c))
       \<and> snd (presetServiceQueue serviceId startNumber count_arg priority_arg now c) = c"
  using assms
  by (auto simp: presetServiceQueue_def split: option.splits)

theorem presetServiceQueue_rejects_before_transaction_witness:
  "isl (fst (presetServiceQueue (Some 1) (Some (- 1)) (Some 2) 0 5000 (mk_conn (mk_store [] []))))
   \<and> snd (presetServiceQueue (Some 1) (Some (- 1)) (Some 2) 0 5000 (mk_conn (mk_store [] [])))
       = mk_conn (mk_store [] [])
   \<and> isl (fst (presetServiceQueue (Some 1) (Some 10) (Some 501) 0 5000 (mk_conn (mk_store [] []))))
   \<and> snd (presetServiceQueue (Some 1) (Some 10) (Some 501) 0 5000 (mk_conn (mk_store [] [])))
       = mk_conn (mk_store [] [])"
  using presetServiceQueue_rejects_before_transaction
          [of "Some 1" "Some (- 1)" "Some 2" 0 5000 "mk_conn (mk_store [] [])"]
        presetServiceQueue_rejects_before_transaction
          [of "Some 1" "Some 10" "Some 501" 0 5000 "mk_conn (mk_store [] [])"]
  by simp

text \<open>
  C6 as stated fails at the non-positive \<open>startNumber\<close> zero: the request for service
  1, start 0 and count 2 on the empty example database is not refused and inserts the
  tickets A001 and A002.
\<close>

theorem presetServiceQueue_accepts_start_zero:
  "\<not> isl (fst (presetServiceQueue (Some 1) (Some 0) (Some 2) 0 5000 (mk_conn (mk_store [] []))))
   \<and> map ticket_number (tickets (data (snd (presetServiceQueue (Some 1) (Some 0) (Some 2) 0 5000
         (mk_conn (mk_store [] [])))))) = [''A001'', ''A002'']
   \<and> tickets (data (mk_conn (mk_store [] []))) = []"
  by code_simp

text \<open>
  The admin route on the example database: an unknown service and a count above 500 are
  refused by the service and answered with 400, a start number without a digit is
  refused by the route, and a priority of 7 is stored as 2.
\<close>

lemma post_preset_queue_answers:
  "fst (post_preset_queue \<lparr>pb_serviceId = Some ''9'', pb_startNumber = Some ''0'',
                            pb_count = Some ''5'', pb_priority = None\<rparr> 5000
          (mk_conn (mk_store [] [])))
     = (400, Inl ''Service not found or inactive'')
   \<and> fst (post_preset_queue \<lparr>pb_serviceId = Some ''1'', pb_startNumber = Some ''0'',
                              pb_count = Some ''501'', pb_priority = None\<rparr> 5000
            (mk_conn (mk_store [] [])))
     = (400, Inl ''count may not exceed 500 tickets per request'')
   \<and> fst (post_preset_queue \<lparr>pb_serviceId = Some ''1'', pb_startNumber = Some ''x'',
                              pb_count = Some ''5'', pb_priority = None\<rparr> 5000
            (mk_conn (mk_store [] [])))
     = (400, Inl ''startNumber must be zero or a positive integer'')
   \<and> fst (fst (post_preset_queue \<lparr>pb_serviceId = Some ''1'', pb_startNumber = Some ''0'',
                                   pb_count = Some ''2'', pb_priority = Some ''7''\<rparr> 5000
                 (mk_conn (mk_store [] []))))
     = 200
   \<and> map (\<lambda>t. (ticket_number t, priority t))
         (tickets (data (snd (post_preset_queue
            \<lparr>pb_serviceId = Some ''1'', pb_startNumber = Some ''0'',
              pb_count = Some ''2'', pb_priority = Some ''7''\<rparr> 5000
            (mk_conn (mk_store [] []))))))
     = [(''A001'', Some 2), (''A002'', Some 2)]"
  by code_simp

section \<open>Ordering of the waiting queue\<close>

text \<open>
  C1. The snapshot builder lists the waiting tickets of a service by priority,
  highest first, then by creation time; call-next without a requested ticket reads
  the same pool \<open>ORDER BY t.created_at\<close> alone. On the example database service 1
  holds ticket 1 (priority 0, created at 1000) and ticket 2 (priority 2, created at
  2000): the snapshot lists ticket 2 first, call-next hands out ticket 1.
\<close>

theorem call_next_ignores_priority:
  "map_sum id cn_id (fst (post_call_next
       \<lparr> b_ticketId = None, b_counterId = Some 3, b_agentId = Some 7, b_serviceId = Some 1,
         b_targetServiceId = None, b_position = None, b_notes = None \<rparr> 3000
       (mk_conn (mk_store [mk_ticket 1 ''A001'' 1 Waiting 0 1000,
                           mk_ticket 2 ''A002'' 1 Waiting 2 2000]
                          [mk_counter 3 Available None None])))) = Inr 1
   \<and> map st_id (q_tickets (getQueueSnapshot
        (mk_store [mk_ticket 1 ''A001'' 1 Waiting 0 1000,
                   mk_ticket 2 ''A002'' 1 Waiting 2 2000]
                  [mk_counter 3 Available None None]) 1)) = [2, 1]"
  by code_simp

section \<open>Auxiliary facts\<close>

text \<open>The example data, unfolded.\<close>

lemmas fixture_defs = serving_conn_def completed_conn_def served_ticket_def completed_ticket_def
  mk_conn_def mk_store_def mk_service_def mk_counter_def mk_ticket_def serving_def terminal_body_def

text \<open>Looking a row up by a key that is unique in the table.\<close>

lemma find_by_key:
  assumes "distinct (map f xs)" and "x \<in> set xs" and "P x" and "\<And>y. P y \<Longrightarrow> f y = f x"
  shows "find P xs = Some x"
  using assms(1,2)
proof (induction xs)
  case Nil
  then show ?case by simp
next
  case (Cons a xs)
  show ?case
  proof (cases "a = x")
    case True
    with assms(3) show ?thesis by simp
  next
    case False
    with Cons.prems have x_in: "x \<in> set xs" by simp
    have "\<not> P a"
    proof
      assume "P a"
      then have "f a = f x" by (rule assms(4))
      with x_in have "f a \<in> f ` set xs" by force
      with Cons.prems(1) show False by simp
    qed
    moreover from Cons.prems have "distinct (map f xs)" by simp
    ultimately show ?thesis using Cons.IH x_in by simp
  qed
qed

lemma parsePositiveInt_positive: "0 < n \<Longrightarrow> parsePositiveInt (Some n) field = Inr n"
  by (simp add: parsePositiveInt_def)

lemma service_of_exists:
  "s \<in> set (services st) \<Longrightarrow> s_id s = service_id t \<Longrightarrow> service_of st t \<noteq> None"
  by (auto simp: service_of_def find_None_iff)

lemma assigned_ticket_found:
  assumes "distinct (map t_id (tickets st))" and "ticket \<in> set (tickets st)"
    and "counter_id ticket = Some counterId" and "agent_id ticket = Some agentId"
    and "s \<in> set (services st)" and "s_id s = service_id ticket"
  shows "assigned_ticket st (t_id ticket) counterId agentId = Some ticket"
  unfolding assigned_ticket_def
  using assms service_of_exists [of s st ticket]
  by (intro find_by_key [where f = t_id]) simp_all

section \<open>Lifecycle transitions\<close>

text \<open>
  C3. Let a ticket in state \<open>completed\<close> be assigned to the requesting counter and
  agent (ticket identifiers are unique and the ticket's service exists). A further
  complete request for it is answered with the error 400 "Ticket already completed";
  the database after the request equals the database before it, so the ticket is still
  there in state \<open>completed\<close> with every field as it was.
\<close>

theorem complete_rejects_completed:
  assumes "saved c = None"
    and "distinct (map t_id (tickets (data c)))"
    and "ticket \<in> set (tickets (data c))"
    and "t_state ticket = Completed"
    and "counter_id ticket = Some counterId" and "agent_id ticket = Some agentId"
    and "s \<in> set (services (data c))" and "s_id s = service_id ticket"
    and "0 < t_id ticket" and "0 < counterId" and "0 < agentId"
    and "b_ticketId body = Some (t_id ticket)"
    and "b_counterId body = Some counterId" and "b_agentId body = Some agentId"
  shows "fst (post_complete body now c) = Inl (httpError 400 ''Ticket already completed'')
       \<and> response_status (httpError 400 ''Ticket already completed'') = 400
       \<and> data (snd (post_complete body now c)) = data c
       \<and> ticket \<in> set (tickets (data (snd (post_complete body now c))))"
proof -
  have found: "assigned_ticket (data c) (t_id ticket) counterId agentId = Some ticket"
    using assms(2,3,5,6,7,8) by (rule assigned_ticket_found)
  have work: "complete_tx (t_id ticket) counterId agentId (parse_notes (b_notes body)) now (data c)
                = (Inl (httpError 400 ''Ticket already completed''), data c)"
    using found assms(4) by (simp add: complete_tx_def)
  have "post_complete body now c
          = (Inl (httpError 400 ''Ticket already completed''),
             c\<lparr>issued := issued c @ [beginStatement None, Rollback]\<rparr>)"
    using assms(9-14)
      withTransaction_throw
        [where work = "complete_tx (t_id ticket) counterId agentId (parse_notes (b_notes body)) now"
           and c = c and m = None, OF assms(1) work]
    by (simp add: post_complete_def parsePositiveInt_positive)
  then show ?thesis
    using assms(3) by (simp add: response_status_def httpError_def)
qed

text \<open>
  Completing ticket A001 at time 5000 gives the completed database; a second complete
  request at time 6000 is refused and leaves it as it is.
\<close>

theorem complete_rejects_completed_witness:
  "snd (post_complete (terminal_body 1) 5000 serving_conn) = completed_conn
   \<and> fst (post_complete (terminal_body 1) 6000 completed_conn)
       = Inl (httpError 400 ''Ticket already completed'')
   \<and> response_status (httpError 400 ''Ticket already completed'') = 400
   \<and> data (snd (post_complete (terminal_body 1) 6000 completed_conn)) = data completed_conn
   \<and> completed_ticket \<in> set (tickets (data (snd (post_complete (terminal_body 1) 6000 completed_conn))))"
proof -
  have first: "snd (post_complete (terminal_body 1) 5000 serving_conn) = completed_conn"
    by code_simp
  have second: "fst (post_complete (terminal_body 1) 6000 completed_conn)
       = Inl (httpError 400 ''Ticket already completed'')
   \<and> response_status (httpError 400 ''Ticket already completed'') = 400
   \<and> data (snd (post_complete (terminal_body 1) 6000 completed_conn)) = data completed_conn
   \<and> completed_ticket \<in> set (tickets (data (snd (post_complete (terminal_body 1) 6000 completed_conn))))"
    by (rule complete_rejects_completed
          [where s = "mk_service 1 ''General'' ''A''" and counterId = 3 and agentId = 7])
       (simp_all add: fixture_defs)
  from first second show ?thesis by (rule conjI)
qed

text \<open>Updating the row with a given key leaves it the row found under that key.\<close>

lemma find_updated_row:
  assumes "distinct (map f xs)" and "x \<in> set xs" and "\<And>t. f (g t) = f t"
  shows "find (\<lambda>t. f t = f x) (map (\<lambda>t. if f t = f x then g t else t) xs) = Some (g x)"
proof (rule find_by_key [where f = f])
  have "map f (map (\<lambda>t. if f t = f x then g t else t) xs) = map f xs"
    by (induction xs) (simp_all add: assms(3))
  with assms(1) show "distinct (map f (map (\<lambda>t. if f t = f x then g t else t) xs))"
    by (simp only:)
  from assms(2) show "g x \<in> set (map (\<lambda>t. if f t = f x then g t else t) xs)"
    by force
  show "f (g x) = f x" by (rule assms(3))
  show "\<And>y. f y = f x \<Longrightarrow> f y = f (g x)" by (simp add: assms(3))
qed

lemma parse_optional_position:
  assumes "case position of None \<Rightarrow> True | Some p \<Rightarrow> 0 \<le> p"
  shows "\<exists>rp. parse_optional position ''position'' (Some 3) = Inr rp"
  using assms
  by (cases position) (auto simp: parse_optional_def truthy_num_def parsePositiveInt_def)

lemma parse_optional_cases:
  "(\<exists>e. parse_optional v field fallback = Inl e) \<or> (\<exists>rp. parse_optional v field fallback = Inr rp)"
  by (cases "parse_optional v field fallback") auto

lemma recycle_tx_called:
  assumes "assigned_ticket st ticketId counterId agentId = Some ticket" and "t_state ticket = Called"
  shows "\<exists>res. recycle_tx ticketId counterId agentId rp now st
           = (Inr res,
              release_counter counterId
                (update_tickets (\<lambda>t. t_id t = ticketId)
                   (\<lambda>t. t\<lparr>t_state := Waiting, counter_id := None, agent_id := None,
                          called_at := None, served_at := None\<rparr>) st))"
  using assms by (simp add: recycle_tx_def Let_def)

text \<open>
  C4. Let a ticket in state \<open>called\<close> be assigned to the requesting counter and
  agent. Whatever \<open>position\<close> the caller supplies, the priority and the creation time
  of every ticket row, hence the order of the queue, are after the request what they were
  before it. When the position passes the route's validation (absent, zero or positive;
  a negative one is refused with 400 before the transaction), the request succeeds, the
  ticket's row is the old row with state \<open>waiting\<close> and with \<open>counter_id\<close>,
  \<open>agent_id\<close>, \<open>called_at\<close> and \<open>served_at\<close> null, and the counter is
  \<open>available\<close> with no current ticket.
\<close>

theorem recycle_returns_ticket_to_queue:
  assumes "saved c = None"
    and "distinct (map t_id (tickets (data c)))"
    and "ticket \<in> set (tickets (data c))"
    and "t_state ticket = Called"
    and "counter_id ticket = Some counterId" and "agent_id ticket = Some agentId"
    and "s \<in> set (services (data c))" and "s_id s = service_id ticket"
    and "0 < t_id ticket" and "0 < counterId" and "0 < agentId"
    and "b_ticketId body = Some (t_id ticket)"
    and "b_counterId body = Some counterId" and "b_agentId body = Some agentId"
  shows "((case position of None \<Rightarrow> True | Some p \<Rightarrow> 0 \<le> p) \<longrightarrow>
            \<not> isl (fst (post_recycle (body\<lparr>b_position := position\<rparr>) now c))
          \<and> find (\<lambda>t. t_id t = t_id ticket)
                 (tickets (data (snd (post_recycle (body\<lparr>b_position := position\<rparr>) now c))))
              = Some (ticket\<lparr>t_state := Waiting, counter_id := None, agent_id := None,
                            called_at := None, served_at := None\<rparr>)
          \<and> counters (data (snd (post_recycle (body\<lparr>b_position := position\<rparr>) now c)))
              = map (\<lambda>k. if c_id k = counterId
                          then k\<lparr>current_ticket_id := None, c_state := Available\<rparr> else k)
                    (counters (data c)))
       \<and> map (\<lambda>t. (t_id t, priority t, created_at t))
             (tickets (data (snd (post_recycle (body\<lparr>b_position := position\<rparr>) now c))))
           = map (\<lambda>t. (t_id t, priority t, created_at t)) (tickets (data c))"
proof -
  let ?body = "body\<lparr>b_position := position\<rparr>"
  let ?g = "\<lambda>t. t\<lparr>t_state := Waiting, counter_id := None, agent_id := None,
                     called_at := None, served_at := None\<rparr>"
  let ?st2 = "release_counter counterId (update_tickets (\<lambda>t. t_id t = t_id ticket) ?g (data c))"
  have found: "assigned_ticket (data c) (t_id ticket) counterId agentId = Some ticket"
    using assms(2,3,5,6,7,8) by (rule assigned_ticket_found)
  have tickets_st2: "tickets ?st2 = map (\<lambda>t. if t_id t = t_id ticket then ?g t else t) (tickets (data c))"
    by (simp add: release_counter_def update_counters_def update_tickets_def)
  have counters_st2: "counters ?st2
      = map (\<lambda>k. if c_id k = counterId
                  then k\<lparr>current_ticket_id := None, c_state := Available\<rparr> else k)
            (counters (data c))"
    by (simp add: release_counter_def update_counters_def update_tickets_def)
  have keys_st2: "map (\<lambda>t. (t_id t, priority t, created_at t)) (tickets ?st2)
                    = map (\<lambda>t. (t_id t, priority t, created_at t)) (tickets (data c))"
    unfolding tickets_st2 by (induction "tickets (data c)") auto
  have row_st2: "find (\<lambda>t. t_id t = t_id ticket) (tickets ?st2) = Some (?g ticket)"
    unfolding tickets_st2
    by (rule find_updated_row [where f = t_id and g = ?g, OF assms(2,3)]) simp
  have run: "post_recycle ?body now c
               = (Inr res, c\<lparr>data := ?st2, issued := issued c @ [beginStatement None, Commit]\<rparr>)"
    if parsed: "parse_optional position ''position'' (Some 3) = Inr rp"
      and work: "recycle_tx (t_id ticket) counterId agentId rp now (data c) = (Inr res, ?st2)"
    for rp res
    using assms(9-14) parsed
      withTransaction_return
        [where work = "recycle_tx (t_id ticket) counterId agentId rp now"
           and c = c and m = None, OF assms(1) work]
    by (simp add: post_recycle_def parsePositiveInt_positive)
  have frame: "map (\<lambda>t. (t_id t, priority t, created_at t))
                 (tickets (data (snd (post_recycle ?body now c))))
               = map (\<lambda>t. (t_id t, priority t, created_at t)) (tickets (data c))"
  proof -
    from parse_optional_cases [of position "''position''" "Some 3"]
    show ?thesis
    proof
      assume "\<exists>e. parse_optional position ''position'' (Some 3) = Inl e"
      then have "snd (post_recycle ?body now c) = c"
        using assms(9-14) by (auto simp: post_recycle_def parsePositiveInt_positive)
      then show ?thesis by simp
    next
      assume "\<exists>rp. parse_optional position ''position'' (Some 3) = Inr rp"
      then obtain rp where parsed: "parse_optional position ''position'' (Some 3) = Inr rp" ..
      from recycle_tx_called [OF found assms(4)]
      obtain res where "recycle_tx (t_id ticket) counterId agentId rp now (data c) = (Inr res, ?st2)"
        by blast
      from run [OF parsed this] show ?thesis by (simp add: keys_st2)
    qed
  qed
  have effect: "\<not> isl (fst (post_recycle ?body now c))
          \<and> find (\<lambda>t. t_id t = t_id ticket) (tickets (data (snd (post_recycle ?body now c))))
              = Some (?g ticket)
          \<and> counters (data (snd (post_recycle ?body now c)))
              = map (\<lambda>k. if c_id k = counterId
                          then k\<lparr>current_ticket_id := None, c_state := Available\<rparr> else k)
                    (counters (data c))"
    if valid: "case position of None \<Rightarrow> True | Some p \<Rightarrow> 0 \<le> p"
  proof -
    from parse_optional_position [OF valid]
    obtain rp where parsed: "parse_optional position ''position'' (Some 3) = Inr rp" ..
    from recycle_tx_called [OF found assms(4)]
    obtain res where "recycle_tx (t_id ticket) counterId agentId rp now (data c) = (Inr res, ?st2)"
      by blast
    from run [OF parsed this] show ?thesis
      by (simp add: row_st2 counters_st2)
  qed
  from frame effect show ?thesis by blast
qed

text \<open>Recycling ticket A001 with the position 1, and with the refused position -4.\<close>

theorem recycle_returns_ticket_to_queue_witness:
  "\<not> isl (fst (post_recycle ((terminal_body 1)\<lparr>b_position := Some 1\<rparr>) 5000 serving_conn))
   \<and> find (\<lambda>t. t_id t = t_id served_ticket)
          (tickets (data (snd (post_recycle ((terminal_body 1)\<lparr>b_position := Some 1\<rparr>) 5000 serving_conn))))
       = Some (served_ticket\<lparr>t_state := Waiting, counter_id := None, agent_id := None,
                            called_at := None, served_at := None\<rparr>)
   \<and> counters (data (snd (post_recycle ((terminal_body 1)\<lparr>b_position := Some 1\<rparr>) 5000 serving_conn)))
       = map (\<lambda>k. if c_id k = 3 then k\<lparr>current_ticket_id := None, c_state := Available\<rparr> else k)
             (counters (data serving_conn))
   \<and> map (\<lambda>t. (t_id t, priority t, created_at t))
         (tickets (data (snd (post_recycle ((terminal_body 1)\<lparr>b_position := Some 1\<rparr>) 5000 serving_conn))))
       = map (\<lambda>t. (t_id t, priority t, created_at t)) (tickets (data serving_conn))
   \<and> map (\<lambda>t. (t_id t, priority t, created_at t))
         (tickets (data (snd (post_recycle ((terminal_body 1)\<lparr>b_position := Some (- 4)\<rparr>) 5000 serving_conn))))
       = map (\<lambda>t. (t_id t, priority t, created_at t)) (tickets (data serving_conn))"
proof -
  have hyps: "saved serving_conn = None"
    "distinct (map t_id (tickets (data serving_conn)))"
    "served_ticket \<in> set (tickets (data serving_conn))"
    "t_state served_ticket = Called"
    "counter_id served_ticket = Some 3" "agent_id served_ticket = Some 7"
    "mk_service 1 ''General'' ''A'' \<in> set (services (data serving_conn))"
    "s_id (mk_service 1 ''General'' ''A'') = service_id served_ticket"
    "0 < t_id served_ticket" "0 < (3::int)" "0 < (7::int)"
    "b_ticketId (terminal_body 1) = Some (t_id served_ticket)"
    "b_counterId (terminal_body 1) = Some 3" "b_agentId (terminal_body 1) = Some 7"
    by (simp_all add: fixture_defs)
  from recycle_returns_ticket_to_queue [OF hyps, of "Some 1" 5000]
       recycle_returns_ticket_to_queue [OF hyps, of "Some (- 4)" 5000]
  show ?thesis by simp
qed

text \<open>The outcome of completing a ticket that is not yet completed.\<close>

lemma complete_tx_open:
  assumes "assigned_ticket st ticketId counterId agentId = Some ticket"
    and "t_state ticket \<noteq> Completed"
  shows "complete_tx ticketId counterId agentId notes now st
           = (Inr \<lparr> cp_id = ticketId,
                    cp_number = ticket_number ticket,
                    cp_serviceId = service_id ticket,
                    cp_completedAt = now,
                    cp_serviceDuration = serviceDuration_of ticket now,
                    cp_actualWait = actualWait_of ticket,
                    cp_queue = getQueueSnapshot
                      (release_counter counterId
                        (update_tickets (\<lambda>t. t_id t = ticketId)
                          (\<lambda>t. t\<lparr>t_state := Completed, completed_at := Some now,
                                 actual_wait := actualWait_of ticket,
                                 service_duration := serviceDuration_of ticket now,
                                 t_notes := notes\<rparr>) st))
                      (service_id ticket) \<rparr>,
              release_counter counterId
                (update_tickets (\<lambda>t. t_id t = ticketId)
                  (\<lambda>t. t\<lparr>t_state := Completed, completed_at := Some now,
                         actual_wait := actualWait_of ticket,
                         service_duration := serviceDuration_of ticket now,
                         t_notes := notes\<rparr>) st))"
  using assms by (simp add: complete_tx_def Let_def)

lemma floor_seconds_nonneg: "(0 \<le> (b - a) div 1000) = ((a::int) \<le> b)"
  by (simp add: pos_imp_zdiv_nonneg_iff)

lemma floor_seconds_bounds:
  "1000 * (((b::int) - a) div 1000) \<le> b - a \<and> b - a < 1000 * ((b - a) div 1000) + 1000"
proof -
  have "(b - a) = 1000 * ((b - a) div 1000) + (b - a) mod 1000" by simp
  moreover have "0 \<le> (b - a) mod 1000" "(b - a) mod 1000 < 1000" by simp_all
  ultimately show ?thesis by linarith
qed

text \<open>
  C5, as the code has it. Let a ticket that is not yet completed be assigned to the
  requesting counter and agent, and let its service time be \<open>served_at\<close>, or
  \<open>called_at\<close> when \<open>served_at\<close> is null. Completing it stores and returns
  \<open>service_duration = (now - service time) div 1000\<close> when the service time exists and
  null otherwise, and \<open>actual_wait = (service time - created_at) div 1000\<close> when both
  timestamps exist and null otherwise; the division is the floored one (the quotient
  times 1000 is at most the difference and less than a second below it). Nothing clamps
  the values: each is non-negative exactly when the later timestamp is not before the
  earlier one.
\<close>

theorem complete_records_wait_and_duration:
  assumes "saved c = None"
    and "distinct (map t_id (tickets (data c)))"
    and "ticket \<in> set (tickets (data c))"
    and "t_state ticket \<noteq> Completed"
    and "counter_id ticket = Some counterId" and "agent_id ticket = Some agentId"
    and "s \<in> set (services (data c))" and "s_id s = service_id ticket"
    and "0 < t_id ticket" and "0 < counterId" and "0 < agentId"
    and "b_ticketId body = Some (t_id ticket)"
    and "b_counterId body = Some counterId" and "b_agentId body = Some agentId"
  shows "\<exists>res row.
           fst (post_complete body now c) = Inr res
         \<and> find (\<lambda>t. t_id t = t_id ticket) (tickets (data (snd (post_complete body now c))))
             = Some row
         \<and> t_state row = Completed \<and> completed_at row = Some now
         \<and> actual_wait row = cp_actualWait res
         \<and> service_duration row = cp_serviceDuration res
         \<and> (case (case served_at ticket of Some v \<Rightarrow> Some v | None \<Rightarrow> called_at ticket) of
               None \<Rightarrow> cp_actualWait res = None \<and> cp_serviceDuration res = None
             | Some sv \<Rightarrow>
                 cp_serviceDuration res = Some ((now - sv) div 1000)
               \<and> (0 \<le> (now - sv) div 1000) = (sv \<le> now)
               \<and> (case created_at ticket of
                     None \<Rightarrow> cp_actualWait res = None
                   | Some cr \<Rightarrow>
                       cp_actualWait res = Some ((sv - cr) div 1000)
                     \<and> 1000 * ((sv - cr) div 1000) \<le> sv - cr
                     \<and> sv - cr < 1000 * ((sv - cr) div 1000) + 1000
                     \<and> (0 \<le> (sv - cr) div 1000) = (cr \<le> sv)))"
proof -
  let ?g = "\<lambda>t. t\<lparr>t_state := Completed, completed_at := Some now,
                     actual_wait := actualWait_of ticket,
                     service_duration := serviceDuration_of ticket now,
                     t_notes := parse_notes (b_notes body)\<rparr>"
  let ?st2 = "release_counter counterId (update_tickets (\<lambda>t. t_id t = t_id ticket) ?g (data c))"
  have found: "assigned_ticket (data c) (t_id ticket) counterId agentId = Some ticket"
    using assms(2,3,5,6,7,8) by (rule assigned_ticket_found)
  note work = complete_tx_open [OF found assms(4), of "parse_notes (b_notes body)" now]
  have tickets_st2: "tickets ?st2 = map (\<lambda>t. if t_id t = t_id ticket then ?g t else t) (tickets (data c))"
    by (simp add: release_counter_def update_counters_def update_tickets_def)
  have row_st2: "find (\<lambda>t. t_id t = t_id ticket) (tickets ?st2) = Some (?g ticket)"
    unfolding tickets_st2
    by (rule find_updated_row [where f = t_id and g = ?g, OF assms(2,3)]) simp
  have run: "post_complete body now c
     = (Inr \<lparr> cp_id = t_id ticket, cp_number = ticket_number ticket,
              cp_serviceId = service_id ticket, cp_completedAt = now,
              cp_serviceDuration = serviceDuration_of ticket now,
              cp_actualWait = actualWait_of ticket,
              cp_queue = getQueueSnapshot ?st2 (service_id ticket) \<rparr>,
        c\<lparr>data := ?st2, issued := issued c @ [beginStatement None, Commit]\<rparr>)"
    using assms(9-14)
      withTransaction_return
        [where work = "complete_tx (t_id ticket) counterId agentId (parse_notes (b_notes body)) now"
           and c = c and m = None, OF assms(1) work]
    by (simp add: post_complete_def parsePositiveInt_positive)
  let ?res = "\<lparr> cp_id = t_id ticket, cp_number = ticket_number ticket,
              cp_serviceId = service_id ticket, cp_completedAt = now,
              cp_serviceDuration = serviceDuration_of ticket now,
              cp_actualWait = actualWait_of ticket,
              cp_queue = getQueueSnapshot ?st2 (service_id ticket) \<rparr>"
  have r1: "fst (post_complete body now c) = Inr ?res"
    by (simp add: run)
  have r2: "find (\<lambda>t. t_id t = t_id ticket) (tickets (data (snd (post_complete body now c))))
              = Some (?g ticket)"
    by (simp add: run row_st2)
  have r3: "t_state (?g ticket) = Completed \<and> completed_at (?g ticket) = Some now
          \<and> actual_wait (?g ticket) = cp_actualWait ?res
          \<and> service_duration (?g ticket) = cp_serviceDuration ?res"
    by simp
  have r4: "case (case served_at ticket of Some v \<Rightarrow> Some v | None \<Rightarrow> called_at ticket) of
               None \<Rightarrow> cp_actualWait ?res = None \<and> cp_serviceDuration ?res = None
             | Some sv \<Rightarrow>
                 cp_serviceDuration ?res = Some ((now - sv) div 1000)
               \<and> (0 \<le> (now - sv) div 1000) = (sv \<le> now)
               \<and> (case created_at ticket of
                     None \<Rightarrow> cp_actualWait ?res = None
                   | Some cr \<Rightarrow>
                       cp_actualWait ?res = Some ((sv - cr) div 1000)
                     \<and> 1000 * ((sv - cr) div 1000) \<le> sv - cr
                     \<and> sv - cr < 1000 * ((sv - cr) div 1000) + 1000
                     \<and> (0 \<le> (sv - cr) div 1000) = (cr \<le> sv))"
    using floor_seconds_bounds
    by (simp add: actualWait_of_def serviceDuration_of_def servedAt_of_def floor_seconds_nonneg
             split: option.splits)
  from r1 r2 r3 r4 show ?thesis by blast
qed

text \<open>
  Ticket A001, created at 1000 and served at 3000, is completed at 5000: two seconds of
  wait and two seconds of service.
\<close>

theorem complete_records_wait_and_duration_witness:
  "map_sum id cp_actualWait (fst (post_complete (terminal_body 1) 5000 serving_conn)) = Inr (Some 2)
   \<and> map_sum id cp_serviceDuration (fst (post_complete (terminal_body 1) 5000 serving_conn))
       = Inr (Some 2)
   \<and> map_option actual_wait
         (find (\<lambda>t. t_id t = 1) (tickets (data (snd (post_complete (terminal_body 1) 5000 serving_conn)))))
       = Some (Some 2)
   \<and> map_option service_duration
         (find (\<lambda>t. t_id t = 1) (tickets (data (snd (post_complete (terminal_body 1) 5000 serving_conn)))))
       = Some (Some 2)"
proof -
  have hyps: "saved serving_conn = None"
    "distinct (map t_id (tickets (data serving_conn)))"
    "served_ticket \<in> set (tickets (data serving_conn))"
    "t_state served_ticket \<noteq> Completed"
    "counter_id served_ticket = Some 3" "agent_id served_ticket = Some 7"
    "mk_service 1 ''General'' ''A'' \<in> set (services (data serving_conn))"
    "s_id (mk_service 1 ''General'' ''A'') = service_id served_ticket"
    "0 < t_id served_ticket" "0 < (3::int)" "0 < (7::int)"
    "b_ticketId (terminal_body 1) = Some (t_id served_ticket)"
    "b_counterId (terminal_body 1) = Some 3" "b_agentId (terminal_body 1) = Some 7"
    by (simp_all add: fixture_defs)
  have vals: "t_id served_ticket = 1" "served_at served_ticket = Some 3000"
    "created_at served_ticket = Some 1000"
    by (simp_all add: fixture_defs)
  from complete_records_wait_and_duration [OF hyps, of 5000]
  show ?thesis unfolding vals by auto
qed

text \<open>
  C5 as stated fails where it says the values are never negative. A preset of three
  tickets at time 1000 gives them the creation times 1000, 1001 and 1002; the third is
  called by its identifier at time 1001, before its own creation time, and completed at
  2500: its \<open>actual_wait\<close> is \<open>floor (-1 / 1000) = -1\<close>.
\<close>

theorem complete_negative_wait:
  "map actual_wait (tickets (data (snd
     (post_complete (terminal_body 3) 2500
       (snd (post_call_next ((terminal_body 3)\<lparr>b_serviceId := None\<rparr>) 1001
         (snd (presetServiceQueue (Some 1) (Some 0) (Some 3) 0 1000
            (mk_conn (mk_store [] [mk_counter 3 Available None None]))))))))))
   = [None, None, Some (- 1)]
   \<and> map created_at (tickets (data (snd
         (presetServiceQueue (Some 1) (Some 0) (Some 3) 0 1000
            (mk_conn (mk_store [] [mk_counter 3 Available None None]))))))
     = [Some 1000, Some 1001, Some 1002]"
  by code_simp

text \<open>The identifier assigned to an inserted ticket is above every identifier in the table.\<close>

lemma fold_max_id_ge:
  "m0 \<le> fold (\<lambda>t m. max (t_id t) m) ts m0
   \<and> (\<forall>t \<in> set ts. t_id t \<le> fold (\<lambda>t m. max (t_id t) m) ts m0)"
proof (induction ts arbitrary: m0)
  case Nil
  show ?case by simp
next
  case (Cons a ts)
  from Cons.IH [of "max (t_id a) m0"] show ?case by auto
qed

lemma next_ticket_id_fresh: "t \<in> set (tickets st) \<Longrightarrow> t_id t < next_ticket_id st"
  using fold_max_id_ge [of 0 "tickets st"]
  by (force simp: next_ticket_id_def)

lemma called_ticket_found:
  assumes "distinct (map t_id (tickets st))" and "ticket \<in> set (tickets st)"
    and "t_state ticket = Called"
    and "counter_id ticket = Some counterId" and "agent_id ticket = Some agentId"
    and "s \<in> set (services st)" and "s_id s = service_id ticket"
  shows "called_ticket st (t_id ticket) counterId agentId = Some ticket"
  unfolding called_ticket_def
  using assms service_of_exists [of s st ticket]
  by (intro find_by_key [where f = t_id]) simp_all

lemma active_service_found:
  assumes "s \<in> set (services st)" and "s_id s = sid" and "is_active s"
  shows "\<exists>s'. active_service st sid = Some s' \<and> s_id s' = sid \<and> is_active s'"
proof (cases "active_service st sid")
  case None
  with assms show ?thesis by (auto simp: active_service_def find_None_iff)
next
  case (Some s')
  then show ?thesis by (auto simp: active_service_def find_Some_iff)
qed

lemma transfer_tx_tickets:
  assumes "called_ticket st ticketId counterId agentId = Some ticket"
    and "active_service st targetServiceId = Some target"
    and "s_id target \<noteq> service_id ticket"
  shows "\<exists>res. transfer_tx ticketId targetServiceId counterId agentId now st
           = (Inr res,
              delete_ticket ticketId
                (release_counter counterId
                   (snd (insert_ticket (transferred_row ticket targetServiceId now) st))))
         \<and> tr_id res = next_ticket_id st"
  using assms
  by (simp add: transfer_tx_def Let_def insert_ticket_def split: prod.splits)

text \<open>
  The transfer of any row. Let a ticket in state \<open>called\<close> be assigned to the
  requesting counter and agent, and let the target service be active and differ from the
  ticket's service. The transfer succeeds; afterwards the ticket table is the old table
  without the old row, followed by exactly one new row, so no row carries the old
  identifier. The new row has a fresh identifier, belongs to the target service, waits
  with no counter and no agent, and carries the old ticket number. Its priority is the
  old priority when that is an integer and 0 when it is null; each of customer name,
  phone and email is the old value, an empty text becoming null; its
  \<open>original_service_id\<close> is the old one when that is neither null nor zero and the
  old \<open>service_id\<close> otherwise; \<open>transferred_at\<close> is the time of the transfer. The
  statements issued are \<open>BEGIN\<close> and \<open>COMMIT\<close>.
\<close>

lemma transfer_inserts_row:
  assumes "saved c = None"
    and "distinct (map t_id (tickets (data c)))"
    and "ticket \<in> set (tickets (data c))"
    and "t_state ticket = Called"
    and "counter_id ticket = Some counterId" and "agent_id ticket = Some agentId"
    and "s \<in> set (services (data c))" and "s_id s = service_id ticket"
    and "target \<in> set (services (data c))" and "s_id target = targetServiceId"
    and "is_active target" and "targetServiceId \<noteq> service_id ticket"
    and "0 < t_id ticket" and "0 < targetServiceId" and "0 < counterId" and "0 < agentId"
    and "b_ticketId body = Some (t_id ticket)"
    and "b_targetServiceId body = Some targetServiceId"
    and "b_counterId body = Some counterId" and "b_agentId body = Some agentId"
  shows "\<exists>res new.
           fst (post_transfer body now c) = Inr res
         \<and> tickets (data (snd (post_transfer body now c)))
             = filter (\<lambda>t. t_id t \<noteq> t_id ticket) (tickets (data c)) @ [new]
         \<and> (\<forall>t \<in> set (tickets (data (snd (post_transfer body now c)))). t_id t \<noteq> t_id ticket)
         \<and> t_id new = tr_id res
         \<and> t_id new \<notin> t_id ` set (tickets (data c))
         \<and> service_id new = targetServiceId
         \<and> t_state new = Waiting
         \<and> counter_id new = None \<and> agent_id new = None
         \<and> ticket_number new = ticket_number ticket
         \<and> priority new = Some (case priority ticket of Some p \<Rightarrow> p | None \<Rightarrow> 0)
         \<and> customer_name new
             = (if customer_name ticket = Some [] then None else customer_name ticket)
         \<and> customer_phone new
             = (if customer_phone ticket = Some [] then None else customer_phone ticket)
         \<and> customer_email new
             = (if customer_email ticket = Some [] then None else customer_email ticket)
         \<and> original_service_id new
             = Some (case original_service_id ticket of
                       None \<Rightarrow> service_id ticket
                     | Some v \<Rightarrow> if v = 0 then service_id ticket else v)
         \<and> transferred_at new = Some now
         \<and> issued (snd (post_transfer body now c)) = issued c @ [Begin None, Commit]"
proof -
  let ?st = "data c"
  let ?new = "(transferred_row ticket targetServiceId now)\<lparr>t_id := next_ticket_id ?st\<rparr>"
  let ?st3 = "delete_ticket (t_id ticket)
                (release_counter counterId
                   (snd (insert_ticket (transferred_row ticket targetServiceId now) ?st)))"
  have found: "called_ticket ?st (t_id ticket) counterId agentId = Some ticket"
    using assms(2,3,4,5,6,7,8) by (rule called_ticket_found)
  from active_service_found [OF assms(9,10,11)]
  obtain target' where target': "active_service ?st targetServiceId = Some target'"
    and target'_id: "s_id target' = targetServiceId"
    by blast
  from transfer_tx_tickets [OF found target', of now] target'_id assms(12)
  obtain res where work: "transfer_tx (t_id ticket) targetServiceId counterId agentId now ?st
                            = (Inr res, ?st3)"
    and res_id: "tr_id res = next_ticket_id ?st"
    by auto
  have run: "post_transfer body now c
               = (Inr res, c\<lparr>data := ?st3, issued := issued c @ [beginStatement None, Commit]\<rparr>)"
    using assms(13-20)
      withTransaction_return
        [where work = "transfer_tx (t_id ticket) targetServiceId counterId agentId now"
           and c = c and m = None, OF assms(1) work]
    by (simp add: post_transfer_def parsePositiveInt_positive)
  have fresh: "\<forall>t \<in> set (tickets ?st). t_id t < next_ticket_id ?st"
    by (simp add: next_ticket_id_fresh)
  with assms(3) have new_not_old: "next_ticket_id ?st \<noteq> t_id ticket"
    by force
  have tickets_st3: "tickets ?st3 = filter (\<lambda>t. t_id t \<noteq> t_id ticket) (tickets ?st) @ [?new]"
    using new_not_old
    by (simp add: delete_ticket_def release_counter_def update_counters_def insert_ticket_def Let_def)
  have r1: "fst (post_transfer body now c) = Inr res"
    by (simp add: run)
  have r2: "tickets (data (snd (post_transfer body now c)))
              = filter (\<lambda>t. t_id t \<noteq> t_id ticket) (tickets ?st) @ [?new]"
    by (simp add: run tickets_st3)
  have r3: "\<forall>t \<in> set (tickets (data (snd (post_transfer body now c)))). t_id t \<noteq> t_id ticket"
    unfolding r2 using new_not_old by simp
  have r4: "t_id ?new = tr_id res \<and> t_id ?new \<notin> t_id ` set (tickets ?st)"
    using fresh res_id by force
  have r5: "service_id ?new = targetServiceId \<and> t_state ?new = Waiting
          \<and> counter_id ?new = None \<and> agent_id ?new = None
          \<and> ticket_number ?new = ticket_number ticket
          \<and> priority ?new = Some (case priority ticket of Some p \<Rightarrow> p | None \<Rightarrow> 0)
          \<and> transferred_at ?new = Some now"
    by (simp add: transferred_row_def)
  have r6: "customer_name ?new
             = (if customer_name ticket = Some [] then None else customer_name ticket)
          \<and> customer_phone ?new
             = (if customer_phone ticket = Some [] then None else customer_phone ticket)
          \<and> customer_email ?new
             = (if customer_email ticket = Some [] then None else customer_email ticket)"
    by (simp add: transferred_row_def or_null_def truthy_str_def split: option.splits)
  have r7: "original_service_id ?new
             = Some (case original_service_id ticket of
                       None \<Rightarrow> service_id ticket
                     | Some v \<Rightarrow> if v = 0 then service_id ticket else v)"
    by (simp add: transferred_row_def truthy_num_def split: option.splits)
  have r8: "issued (snd (post_transfer body now c)) = issued c @ [Begin None, Commit]"
    by (simp add: run beginStatement_def)
  from r1 r2 r3 r4 r5 r6 r7 r8 show ?thesis by blast
qed

text \<open>
  C2. Let a ticket in state \<open>called\<close> be assigned to the requesting counter and
  agent, and let the target service be active and differ from the ticket's service. The
  ticket is a row as the program writes rows: its priority is an integer (ticket
  creation validates it, the preset and the transfer write an integer), each customer
  field is null or a non-empty text (ticket creation stores null for an empty text, the
  preset stores no customer field, the transfer stores null for an empty text), and its
  \<open>original_service_id\<close> is null or the identifier of a service, which is not zero.
  Then the transfer succeeds, in one committed transaction; afterwards the old row no
  longer exists, and the table is the old table without that row, followed by exactly
  one new row with a fresh identifier. The new row belongs to the target service, waits with no counter and
  no agent, and has the same ticket number, priority, customer name, phone and email as
  the old row; its \<open>original_service_id\<close> is the old one when that is set and the old
  \<open>service_id\<close> otherwise; \<open>transferred_at\<close> is the time of the transfer.
\<close>

theorem transfer_replaces_ticket:
  assumes "saved c = None"
    and "distinct (map t_id (tickets (data c)))"
    and "ticket \<in> set (tickets (data c))"
    and "t_state ticket = Called"
    and "counter_id ticket = Some counterId" and "agent_id ticket = Some agentId"
    and "s \<in> set (services (data c))" and "s_id s = service_id ticket"
    and "target \<in> set (services (data c))" and "s_id target = targetServiceId"
    and "is_active target" and "targetServiceId \<noteq> service_id ticket"
    and "0 < t_id ticket" and "0 < targetServiceId" and "0 < counterId" and "0 < agentId"
    and "b_ticketId body = Some (t_id ticket)"
    and "b_targetServiceId body = Some targetServiceId"
    and "b_counterId body = Some counterId" and "b_agentId body = Some agentId"
    and "priority ticket \<noteq> None"
    and "customer_name ticket \<noteq> Some []"
    and "customer_phone ticket \<noteq> Some []"
    and "customer_email ticket \<noteq> Some []"
    and "original_service_id ticket \<noteq> Some 0"
  shows "\<exists>res new.
           fst (post_transfer body now c) = Inr res
         \<and> tickets (data (snd (post_transfer body now c)))
             = filter (\<lambda>t. t_id t \<noteq> t_id ticket) (tickets (data c)) @ [new]
         \<and> (\<forall>t \<in> set (tickets (data (snd (post_transfer body now c)))). t_id t \<noteq> t_id ticket)
         \<and> t_id new = tr_id res
         \<and> t_id new \<notin> t_id ` set (tickets (data c))
         \<and> service_id new = targetServiceId
         \<and> t_state new = Waiting
         \<and> counter_id new = None \<and> agent_id new = None
         \<and> ticket_number new = ticket_number ticket
         \<and> priority new = priority ticket
         \<and> customer_name new = customer_name ticket
         \<and> customer_phone new = customer_phone ticket
         \<and> customer_email new = customer_email ticket
         \<and> original_service_id new
             = Some (case original_service_id ticket of
                       Some v \<Rightarrow> v
                     | None \<Rightarrow> service_id ticket)
         \<and> transferred_at new = Some now
         \<and> issued (snd (post_transfer body now c)) = issued c @ [Begin None, Commit]"
proof -
  from transfer_inserts_row [OF assms(1-20), of now]
  obtain res new where run: "fst (post_transfer body now c) = Inr res"
    and rows: "tickets (data (snd (post_transfer body now c)))
             = filter (\<lambda>t. t_id t \<noteq> t_id ticket) (tickets (data c)) @ [new]"
    and gone: "\<forall>t \<in> set (tickets (data (snd (post_transfer body now c)))). t_id t \<noteq> t_id ticket"
    and ident: "t_id new = tr_id res" "t_id new \<notin> t_id ` set (tickets (data c))"
    and queue: "service_id new = targetServiceId" "t_state new = Waiting"
      "counter_id new = None" "agent_id new = None"
    and number: "ticket_number new = ticket_number ticket"
    and prio: "priority new = Some (case priority ticket of Some p \<Rightarrow> p | None \<Rightarrow> 0)"
    and name: "customer_name new
             = (if customer_name ticket = Some [] then None else customer_name ticket)"
    and phone: "customer_phone new
             = (if customer_phone ticket = Some [] then None else customer_phone ticket)"
    and email: "customer_email new
             = (if customer_email ticket = Some [] then None else customer_email ticket)"
    and origin: "original_service_id new
             = Some (case original_service_id ticket of
                       None \<Rightarrow> service_id ticket
                     | Some v \<Rightarrow> if v = 0 then service_id ticket else v)"
    and at: "transferred_at new = Some now"
    and committed: "issued (snd (post_transfer body now c)) = issued c @ [Begin None, Commit]"
    by blast
  from prio assms(21) have prio': "priority new = priority ticket"
    by (cases "priority ticket") simp_all
  from name assms(22) have name': "customer_name new = customer_name ticket"
    by simp
  from phone assms(23) have phone': "customer_phone new = customer_phone ticket"
    by simp
  from email assms(24) have email': "customer_email new = customer_email ticket"
    by simp
  from origin assms(25) have origin': "original_service_id new
             = Some (case original_service_id ticket of
                       Some v \<Rightarrow> v
                     | None \<Rightarrow> service_id ticket)"
    by (cases "original_service_id ticket") simp_all
  from run rows gone ident queue number prio' name' phone' email' origin' at committed
  show ?thesis by blast
qed

text \<open>
  Ticket A001 of a named customer, served at counter 3 with priority 2, is transferred
  from service 1 to service 2.
\<close>

theorem transfer_replaces_ticket_witness:
  "map ticket_number (tickets (data (snd (post_transfer (terminal_body 1) 5000 named_conn))))
     = [''A001'']
   \<and> map service_id (tickets (data (snd (post_transfer (terminal_body 1) 5000 named_conn)))) = [2]
   \<and> map t_state (tickets (data (snd (post_transfer (terminal_body 1) 5000 named_conn))))
     = [Waiting]
   \<and> map priority (tickets (data (snd (post_transfer (terminal_body 1) 5000 named_conn))))
     = [Some 2]
   \<and> map customer_name (tickets (data (snd (post_transfer (terminal_body 1) 5000 named_conn))))
     = [Some ''Ada Lovelace'']
   \<and> map customer_phone (tickets (data (snd (post_transfer (terminal_body 1) 5000 named_conn))))
     = [Some ''555-0100'']
   \<and> map customer_email (tickets (data (snd (post_transfer (terminal_body 1) 5000 named_conn))))
     = [None]
   \<and> map original_service_id (tickets (data (snd (post_transfer (terminal_body 1) 5000 named_conn))))
     = [Some 1]
   \<and> map transferred_at (tickets (data (snd (post_transfer (terminal_body 1) 5000 named_conn))))
     = [Some 5000]"
proof -
  have hyps: "saved named_conn = None"
    "distinct (map t_id (tickets (data named_conn)))"
    "named_ticket \<in> set (tickets (data named_conn))"
    "t_state named_ticket = Called"
    "counter_id named_ticket = Some 3" "agent_id named_ticket = Some 7"
    "mk_service 1 ''General'' ''A'' \<in> set (services (data named_conn))"
    "s_id (mk_service 1 ''General'' ''A'') = service_id named_ticket"
    "mk_service 2 ''Billing'' ''B'' \<in> set (services (data named_conn))"
    "s_id (mk_service 2 ''Billing'' ''B'') = 2"
    "is_active (mk_service 2 ''Billing'' ''B'')" "2 \<noteq> service_id named_ticket"
    "0 < t_id named_ticket" "0 < (2::int)" "0 < (3::int)" "0 < (7::int)"
    "b_ticketId (terminal_body 1) = Some (t_id named_ticket)"
    "b_targetServiceId (terminal_body 1) = Some 2"
    "b_counterId (terminal_body 1) = Some 3" "b_agentId (terminal_body 1) = Some 7"
    "priority named_ticket \<noteq> None"
    "customer_name named_ticket \<noteq> Some []"
    "customer_phone named_ticket \<noteq> Some []"
    "customer_email named_ticket \<noteq> Some []"
    "original_service_id named_ticket \<noteq> Some 0"
    by (simp_all add: named_conn_def named_ticket_def fixture_defs)
  from transfer_replaces_ticket [OF hyps, of 5000]
  obtain res new where
    "tickets (data (snd (post_transfer (terminal_body 1) 5000 named_conn)))
       = filter (\<lambda>t. t_id t \<noteq> t_id named_ticket) (tickets (data named_conn)) @ [new]"
    and "service_id new = 2" and "t_state new = Waiting"
    and "ticket_number new = ticket_number named_ticket"
    and "priority new = priority named_ticket"
    and "customer_name new = customer_name named_ticket"
    and "customer_phone new = customer_phone named_ticket"
    and "customer_email new = customer_email named_ticket"
    and "original_service_id new
             = Some (case original_service_id named_ticket of
                       Some v \<Rightarrow> v
                     | None \<Rightarrow> service_id named_ticket)"
    and "transferred_at new = Some 5000"
    by blast
  then show ?thesis
    by (simp add: named_conn_def named_ticket_def fixture_defs)
qed

section \<open>Ticket creation\<close>

lemma active_service_unique:
  assumes "distinct (map s_id (services st))" and "service \<in> set (services st)"
    and "is_active service"
  shows "active_service st (s_id service) = Some service"
  unfolding active_service_def
  using assms by (intro find_by_key [where f = s_id]) simp_all

lemma range_exhausted_iff:
  "(truthy_num (range_end service) \<and> the (range_end service) < n)
     = (\<exists>e. range_end service = Some e \<and> e \<noteq> 0 \<and> e < n)"
  by (cases "range_end service") (auto simp: truthy_num_def)

lemma restore_current_number:
  assumes "\<forall>s \<in> set xs. s_id s = s_id x \<longrightarrow> s = x"
  shows "map (\<lambda>s. if s_id s = s_id x then s\<lparr>current_number := current_number x\<rparr> else s)
           (map (\<lambda>s. if s_id s = s_id x then s\<lparr>current_number := v\<rparr> else s) xs) = xs"
  using assms by (induction xs) auto

text \<open>
  C9. Let the requested service be active (service identifiers are unique), and let
  \<open>n\<close> be the next sequence number, one above the larger of \<open>current_number\<close>
  (0 when null) and \<open>range_start - 1\<close> (\<open>range_start\<close> being 1 when null). When
  the service has an upper bound \<open>range_end\<close> (set and not zero, the only values
  service validation lets in being positive) and \<open>n\<close> exceeds it, the creation is
  answered with 409 and the database is as before. Otherwise it succeeds: the ticket
  number is the prefix followed by \<open>n\<close> padded with zeros to three digits, the new
  row is appended in state \<open>waiting\<close> under that number, the service's
  \<open>current_number\<close> becomes \<open>n\<close>, and nothing else changes in the services.
\<close>

theorem create_ticket_numbering:
  assumes "saved c = None"
    and "distinct (map s_id (services (data c)))"
    and "service \<in> set (services (data c))"
    and "is_active service"
    and "p_serviceId payload = s_id service"
    and "n = max (case current_number service of Some v \<Rightarrow> v | None \<Rightarrow> 0)
                 ((case range_start service of Some v \<Rightarrow> v | None \<Rightarrow> 1) - 1) + 1"
  shows "if (\<exists>e. range_end service = Some e \<and> e \<noteq> 0 \<and> e < n)
         then fst (post_tickets payload now c) = Inl (httpError 409 ''Service ticket range exhausted'')
            \<and> response_status (httpError 409 ''Service ticket range exhausted'') = 409
            \<and> data (snd (post_tickets payload now c)) = data c
         else (\<exists>res new.
                 fst (post_tickets payload now c) = Inr res
               \<and> ct_ticketNumber res = prefix service @ padStart 3 (CHR ''0'') (String_of_int n)
               \<and> ct_state res = Waiting
               \<and> tickets (data (snd (post_tickets payload now c))) = tickets (data c) @ [new]
               \<and> t_id new = ct_id res
               \<and> ticket_number new = ct_ticketNumber res
               \<and> service_id new = s_id service
               \<and> t_state new = Waiting
               \<and> find (\<lambda>s. s_id s = s_id service) (services (data (snd (post_tickets payload now c))))
                   = Some (service\<lparr>current_number := Some n\<rparr>)
               \<and> map (\<lambda>s. if s_id s = s_id service then s\<lparr>current_number := current_number service\<rparr> else s)
                     (services (data (snd (post_tickets payload now c))))
                   = services (data c))"
proof -
  let ?st = "data c"
  have n_def: "n = next_number service"
    by (simp add: assms(6) next_number_def)
  have svc: "active_service ?st (p_serviceId payload) = Some service"
    using active_service_unique [OF assms(2,3,4)] assms(5) by simp
  show ?thesis
  proof (cases "\<exists>e. range_end service = Some e \<and> e \<noteq> 0 \<and> e < n")
    case True
    then have "truthy_num (range_end service) \<and> the (range_end service) < next_number service"
      by (simp add: range_exhausted_iff n_def)
    then have work: "create_ticket_tx payload now ?st
                 = (Inl (httpError 409 ''Service ticket range exhausted''), ?st)"
      using svc by (simp add: create_ticket_tx_def Let_def)
    have "post_tickets payload now c
            = (Inl (httpError 409 ''Service ticket range exhausted''),
               c\<lparr>issued := issued c @ [beginStatement None, Rollback]\<rparr>)"
      unfolding post_tickets_def
      by (rule withTransaction_throw [where work = "create_ticket_tx payload now", OF assms(1) work])
    with True show ?thesis
      by (simp add: response_status_def httpError_def)
  next
    case False
    then have open_range:
      "\<not> (truthy_num (range_end service) \<and> the (range_end service) < next_number service)"
      by (simp add: range_exhausted_iff n_def)
    let ?st1 = "update_services (\<lambda>s. s_id s = p_serviceId payload)
                  (\<lambda>s. s\<lparr>current_number := Some n\<rparr>) ?st"
    define res where "res = projr (fst (create_ticket_tx payload now ?st))"
    define st2 where "st2 = snd (create_ticket_tx payload now ?st)"
    have issue: "\<not> isl (fst (create_ticket_tx payload now ?st))
        \<and> ct_ticketNumber res = format_ticket_number (prefix service) n
        \<and> ct_state res = Waiting
        \<and> services st2 = services ?st1
        \<and> tickets st2 = tickets ?st @ [last (tickets st2)]
        \<and> t_id (last (tickets st2)) = ct_id res
        \<and> ticket_number (last (tickets st2)) = ct_ticketNumber res
        \<and> service_id (last (tickets st2)) = p_serviceId payload
        \<and> t_state (last (tickets st2)) = Waiting"
      unfolding res_def st2_def using svc open_range
      by (simp add: create_ticket_tx_def Let_def insert_ticket_def update_services_def n_def)
    then have work: "create_ticket_tx payload now ?st = (Inr res, st2)"
      unfolding res_def st2_def by (cases "create_ticket_tx payload now ?st") auto
    note res_number = issue [THEN conjunct2, THEN conjunct1]
    note res_state = issue [THEN conjunct2, THEN conjunct2, THEN conjunct1]
    note st2_services = issue [THEN conjunct2, THEN conjunct2, THEN conjunct2, THEN conjunct1]
    have st2_tickets: "\<exists>new. tickets st2 = tickets ?st @ [new] \<and> t_id new = ct_id res
                          \<and> ticket_number new = ct_ticketNumber res
                          \<and> service_id new = p_serviceId payload \<and> t_state new = Waiting"
      using issue by blast
    have run: "post_tickets payload now c
            = (Inr res, c\<lparr>data := st2, issued := issued c @ [beginStatement None, Commit]\<rparr>)"
      unfolding post_tickets_def
      by (rule withTransaction_return [where work = "create_ticket_tx payload now", OF assms(1) work])
    have services_st1: "services ?st1
        = map (\<lambda>s. if s_id s = s_id service then s\<lparr>current_number := Some n\<rparr> else s) (services ?st)"
      by (simp add: update_services_def assms(5))
    have row: "find (\<lambda>s. s_id s = s_id service) (services ?st1)
                 = Some (service\<lparr>current_number := Some n\<rparr>)"
      unfolding services_st1
      by (rule find_updated_row [where f = s_id and g = "\<lambda>s. s\<lparr>current_number := Some n\<rparr>",
                                 OF assms(2,3)]) simp
    have "\<forall>s \<in> set (services ?st). s_id s = s_id service \<longrightarrow> s = service"
      using assms(2,3) by (auto simp: distinct_map inj_on_def)
    then have others: "map (\<lambda>s. if s_id s = s_id service
                             then s\<lparr>current_number := current_number service\<rparr> else s)
                        (services ?st1) = services ?st"
      unfolding services_st1 by (rule restore_current_number)
    from st2_tickets obtain new where new: "tickets st2 = tickets ?st @ [new]" "t_id new = ct_id res"
        "ticket_number new = ct_ticketNumber res" "service_id new = s_id service" "t_state new = Waiting"
      using assms(5) by auto
    have r1: "fst (post_tickets payload now c) = Inr res" by (simp add: run)
    have r2: "ct_ticketNumber res = prefix service @ padStart 3 (CHR ''0'') (String_of_int n)"
      by (simp add: res_number format_ticket_number_def)
    have r3: "tickets (data (snd (post_tickets payload now c))) = tickets ?st @ [new]"
      by (simp add: run new(1))
    have r4: "find (\<lambda>s. s_id s = s_id service) (services (data (snd (post_tickets payload now c))))
                   = Some (service\<lparr>current_number := Some n\<rparr>)"
      by (simp add: run st2_services row)
    have r5: "map (\<lambda>s. if s_id s = s_id service then s\<lparr>current_number := current_number service\<rparr> else s)
                     (services (data (snd (post_tickets payload now c))))
                   = services ?st"
      by (simp add: run st2_services others)
    from False r1 r2 res_state r3 new(2-5) r4 r5 show ?thesis by auto
  qed
qed

text \<open>
  Service 1 of the example database has the prefix A, the range 1 to 999 and no ticket
  issued: two creations in a row yield A001 and A002, and \<open>current_number\<close> is 2.
\<close>

theorem create_ticket_numbering_witness:
  "map_sum id ct_ticketNumber (fst (post_tickets walk_in 5000 (mk_conn (mk_store [] []))))
     = Inr ''A001''
   \<and> map_sum id ct_ticketNumber
        (fst (post_tickets walk_in 6000 (snd (post_tickets walk_in 5000 (mk_conn (mk_store [] []))))))
     = Inr ''A002''
   \<and> map_sum id ct_state
        (fst (post_tickets walk_in 6000 (snd (post_tickets walk_in 5000 (mk_conn (mk_store [] []))))))
     = Inr Waiting
   \<and> map_option current_number
        (find (\<lambda>s. s_id s = 1)
           (services (data (snd (post_tickets walk_in 6000
              (snd (post_tickets walk_in 5000 (mk_conn (mk_store [] [])))))))))
     = Some (Some 2)"
proof -
  let ?c0 = "mk_conn (mk_store [] [])"
  let ?a = "mk_service 1 ''General'' ''A''"
  let ?c1 = "snd (post_tickets walk_in 5000 ?c0)"
  have not_exhausted: "\<not> (\<exists>e. range_end ?a = Some e \<and> e \<noteq> 0 \<and> e < 1)"
    "\<not> (\<exists>e. range_end (?a\<lparr>current_number := Some 1\<rparr>) = Some e \<and> e \<noteq> 0 \<and> e < 2)"
    by (simp_all add: mk_service_def)
  have numbers: "prefix ?a @ padStart 3 (CHR ''0'') (String_of_int 1) = ''A001''"
    "prefix ?a @ padStart 3 (CHR ''0'') (String_of_int 2) = ''A002''"
    by code_simp+
  have hyps0: "saved ?c0 = None" "distinct (map s_id (services (data ?c0)))"
    "?a \<in> set (services (data ?c0))" "is_active ?a" "p_serviceId walk_in = s_id ?a"
    "1 = max (case current_number ?a of Some v \<Rightarrow> v | None \<Rightarrow> 0)
             ((case range_start ?a of Some v \<Rightarrow> v | None \<Rightarrow> 1) - 1) + 1"
    by (simp_all add: mk_conn_def mk_store_def mk_service_def walk_in_def)
  note first = create_ticket_numbering [OF hyps0, of 5000]
  have hyps1: "saved ?c1 = None" "distinct (map s_id (services (data ?c1)))"
    "?a\<lparr>current_number := Some 1\<rparr> \<in> set (services (data ?c1))"
    by code_simp+
  have hyps1': "is_active (?a\<lparr>current_number := Some 1\<rparr>)"
    "p_serviceId walk_in = s_id (?a\<lparr>current_number := Some 1\<rparr>)"
    "2 = max (case current_number (?a\<lparr>current_number := Some 1\<rparr>) of Some v \<Rightarrow> v | None \<Rightarrow> 0)
             ((case range_start (?a\<lparr>current_number := Some 1\<rparr>) of Some v \<Rightarrow> v | None \<Rightarrow> 1) - 1) + 1"
    by (simp_all add: mk_service_def walk_in_def)
  note second = create_ticket_numbering [OF hyps1 hyps1', of 6000]
  have id_a: "s_id (?a\<lparr>current_number := Some 1\<rparr>) = 1" by (simp add: mk_service_def)
  from first obtain res1 where
      "fst (post_tickets walk_in 5000 ?c0) = Inr res1"
      "ct_ticketNumber res1 = prefix ?a @ padStart 3 (CHR ''0'') (String_of_int 1)"
    unfolding if_not_P [OF not_exhausted(1)] by blast
  then have w1: "map_sum id ct_ticketNumber (fst (post_tickets walk_in 5000 ?c0)) = Inr ''A001''"
    by (simp add: numbers(1))
  from second obtain res2 where
      "fst (post_tickets walk_in 6000 ?c1) = Inr res2"
      "ct_ticketNumber res2
         = prefix (?a\<lparr>current_number := Some 1\<rparr>) @ padStart 3 (CHR ''0'') (String_of_int 2)"
      "ct_state res2 = Waiting"
      "find (\<lambda>s. s_id s = s_id (?a\<lparr>current_number := Some 1\<rparr>))
          (services (data (snd (post_tickets walk_in 6000 ?c1))))
         = Some (?a\<lparr>current_number := Some 1, current_number := Some 2\<rparr>)"
    unfolding if_not_P [OF not_exhausted(2)] by blast
  then have w2: "map_sum id ct_ticketNumber (fst (post_tickets walk_in 6000 ?c1)) = Inr ''A002''
          \<and> map_sum id ct_state (fst (post_tickets walk_in 6000 ?c1)) = Inr Waiting
          \<and> map_option current_number
               (find (\<lambda>s. s_id s = 1) (services (data (snd (post_tickets walk_in 6000 ?c1)))))
             = Some (Some 2)"
    by (simp add: numbers(2) id_a)
  from w1 w2 show ?thesis by (rule conjI)
qed

section \<open>Authorization of call-next\<close>

text \<open>Sorting keeps the rows.\<close>

lemma set_insert_row: "set (insert_row lt x ys) = insert x (set ys)"
  by (induction ys) auto

lemma set_order_by: "set (order_by lt xs) = set xs"
  by (induction xs) (simp_all add: order_by_def set_insert_row)

lemma set_agent_service_ids:
  "set (agent_service_ids st agentId)
     = as_service_id ` {a \<in> set (agent_services st). as_agent_id a = agentId}"
  by (simp add: agent_service_ids_def set_order_by)

text \<open>On a connection with no open transaction the outcome is that of the unit of work.\<close>

lemma fst_withTransaction:
  assumes "saved c = None"
  shows "fst (withTransaction work m c) = fst (work (data c))"
proof (cases "work (data c)")
  case (Pair r d)
  show ?thesis
  proof (cases r)
    case (Inl e)
    with Pair withTransaction_throw [where work = work, OF assms, of e d m] show ?thesis by simp
  next
    case (Inr v)
    with Pair withTransaction_return [where work = work, OF assms, of v d m] show ?thesis by simp
  qed
qed

lemma call_next_tx_error:
  "(fst (call_next_tx counterId agentId rs rt now st) = Inl e)
     = (select_ticket st counterId agentId rs rt = Inl e)"
  by (cases "select_ticket st counterId agentId rs rt") (simp_all add: call_next_tx_def Let_def)

lemma call_next_tx_service:
  "select_ticket st counterId agentId rs rt = Inr ticket \<Longrightarrow>
     \<exists>res. fst (call_next_tx counterId agentId rs rt now st) = Inr res
          \<and> cn_id res = t_id ticket \<and> cn_serviceId res = service_id ticket"
  by (simp add: call_next_tx_def Let_def)

text \<open>The resolution of an explicitly requested service.\<close>

lemma resolve_requested_service:
  assumes "sid \<noteq> 0"
  shows "resolve_service st counterId agentId (Some sid)
           = (case active_service st sid of
                None \<Rightarrow> Inl (httpError 404 ''Requested service not found'')
              | Some serviceContext \<Rightarrow>
                  if (\<exists>a \<in> set (agent_services st). as_agent_id a = agentId)
                     \<and> \<not> (\<exists>a \<in> set (agent_services st). as_agent_id a = agentId \<and> as_service_id a = sid)
                  then Inl (httpError 403 ''Agent is not assigned to this service'')
                  else Inr serviceContext)"
proof -
  have has: "(0 < length (agent_service_ids st agentId))
               = (\<exists>a \<in> set (agent_services st). as_agent_id a = agentId)"
    using set_agent_service_ids [of st agentId]
    by (cases "agent_service_ids st agentId") auto
  have among: "list_ex (\<lambda>i. i = sid) (agent_service_ids st agentId)
               = (\<exists>a \<in> set (agent_services st). as_agent_id a = agentId \<and> as_service_id a = sid)"
    by (auto simp: list_ex_iff set_agent_service_ids)
  show ?thesis
    using assms has among
    by (simp add: resolve_service_def truthy_num_def Let_def split: option.splits)
qed

lemma resolve_unassigned_no_403:
  assumes "\<not> (\<exists>a \<in> set (agent_services st). as_agent_id a = agentId)"
    and "resolve_service st counterId agentId rs = Inl e"
  shows "status e = Some 404 \<or> status e = Some 400"
proof -
  have "agent_service_ids st agentId = []"
    using assms(1) set_agent_service_ids [of st agentId]
    by (cases "agent_service_ids st agentId") auto
  with assms(2) show ?thesis
    by (auto simp: resolve_service_def Let_def httpError_def split: if_splits option.splits)
qed

lemma first_row_member:
  "first_row rows = Some r \<Longrightarrow> r \<in> set rows"
  by (cases rows) (simp_all add: first_row_def)

lemma first_row_nonempty:
  "rows \<noteq> [] \<Longrightarrow> \<exists>r. first_row rows = Some r"
  by (cases rows) (simp_all add: first_row_def)

lemma next_waiting_ticket_exists:
  assumes "t \<in> set (tickets st)" and "service_id t = sid" and "t_state t = Waiting"
    and "s \<in> set (services st)" and "s_id s = sid"
  shows "\<exists>t'. next_waiting_ticket st sid = Some t' \<and> service_id t' = sid \<and> t_state t' = Waiting"
proof -
  let ?rows = "order_by created_asc
                 (filter (\<lambda>t. service_id t = sid \<and> t_state t = Waiting \<and> service_of st t \<noteq> None)
                         (tickets st))"
  have "service_of st t \<noteq> None"
    using assms(2,5) by (intro service_of_exists [OF assms(4)]) simp
  with assms(1,2,3) have "t \<in> set ?rows"
    by (simp add: set_order_by)
  then have "?rows \<noteq> []" by auto
  from first_row_nonempty [OF this] obtain t' where t': "first_row ?rows = Some t'" ..
  from first_row_member [OF this] have "service_id t' = sid \<and> t_state t' = Waiting"
    by (simp add: set_order_by)
  with t' show ?thesis by (simp add: next_waiting_ticket_def)
qed

lemma select_ticket_not_assigned_error:
  assumes "select_ticket st counterId agentId (Some sid) rt
             = Inl (httpError 403 ''Agent is not assigned to this service'')"
    and "sid \<noteq> 0"
  shows "(\<exists>a \<in> set (agent_services st). as_agent_id a = agentId)
       \<and> \<not> (\<exists>a \<in> set (agent_services st). as_agent_id a = agentId \<and> as_service_id a = sid)"
proof (cases "truthy_num rt")
  case True
  with assms(1) show ?thesis
    by (simp add: select_ticket_def httpError_def split: option.splits if_splits)
next
  case False
  with assms(1) have "resolve_service st counterId agentId (Some sid)
             = Inl (httpError 403 ''Agent is not assigned to this service'')"
    by (simp add: select_ticket_def httpError_def split: sum.splits option.splits)
  then show ?thesis
    unfolding resolve_requested_service [OF assms(2)]
    by (simp add: httpError_def split: option.splits if_splits)
qed

lemma parse_optional_absent:
  "v = None \<or> v = Some 0 \<Longrightarrow> parse_optional v field None = Inr None"
  by (auto simp: parse_optional_def truthy_num_def)

lemma parse_optional_positive:
  "0 < n \<Longrightarrow> parse_optional (Some n) field fallback = Inr (Some n)"
  by (simp add: parse_optional_def truthy_num_def parsePositiveInt_def)

lemma parse_optional_error:
  "parse_optional v field fallback = Inl e \<Longrightarrow> status e = Some 400"
  by (auto simp: parse_optional_def parsePositiveInt_def httpError_def
           split: if_splits option.splits sum.splits)

lemma post_call_next_parsed:
  assumes "saved c = None" and "0 < counterId" and "0 < agentId"
    and "b_counterId body = Some counterId" and "b_agentId body = Some agentId"
    and "parse_optional (b_serviceId body) ''serviceId'' None = Inr rs"
    and "parse_optional (b_ticketId body) ''ticketId'' None = Inr rt"
  shows "fst (post_call_next body now c) = fst (call_next_tx counterId agentId rs rt now (data c))"
  using assms fst_withTransaction [OF assms(1), of "call_next_tx counterId agentId rs rt now" None]
  by (simp add: post_call_next_def parsePositiveInt_positive)

lemma call_next_403_only_if:
  assumes "saved c = None" and "0 < counterId" and "0 < agentId" and "0 < sid"
    and "b_counterId body = Some counterId" and "b_agentId body = Some agentId"
    and "b_serviceId body = Some sid"
    and "fst (post_call_next body now c)
               = Inl (httpError 403 ''Agent is not assigned to this service'')"
  shows "(\<exists>a \<in> set (agent_services (data c)). as_agent_id a = agentId)
            \<and> \<not> (\<exists>a \<in> set (agent_services (data c)).
                     as_agent_id a = agentId \<and> as_service_id a = sid)"
proof -
  let ?st = "data c"
  note parsed = post_call_next_parsed [OF assms(1,2,3,5,6)]
  have rs: "parse_optional (b_serviceId body) ''serviceId'' None = Inr (Some sid)"
    using assms(4,7) by (simp add: parse_optional_positive)
  show ?thesis
  proof (cases "parse_optional (b_ticketId body) ''ticketId'' None")
    case (Inl e)
    then have "fst (post_call_next body now c) = Inl e"
      using assms(2-6) rs by (simp add: post_call_next_def parsePositiveInt_positive)
    then have "Inl e = (Inl (httpError 403 ''Agent is not assigned to this service'')
                          :: error + call_next_result)"
      using assms(8) by (rule trans [OF sym])
    then have "status e = Some 403"
      by (simp add: httpError_def)
    with parse_optional_error [OF Inl] show ?thesis
      by simp
  next
    case (Inr rt)
    from assms(8)
    have "fst (call_next_tx counterId agentId (Some sid) rt now ?st)
            = Inl (httpError 403 ''Agent is not assigned to this service'')"
      unfolding parsed [OF rs Inr] .
    then have "select_ticket ?st counterId agentId (Some sid) rt
                 = Inl (httpError 403 ''Agent is not assigned to this service'')"
      by (simp only: call_next_tx_error)
    from select_ticket_not_assigned_error [OF this] assms(4)
    show ?thesis by simp
  qed
qed

lemma call_next_403_if:
  assumes "saved c = None" and "0 < counterId" and "0 < agentId" and "0 < sid"
    and "b_counterId body = Some counterId" and "b_agentId body = Some agentId"
    and "b_serviceId body = Some sid"
    and "b_ticketId body = None \<or> b_ticketId body = Some 0"
    and "s \<in> set (services (data c))" and "s_id s = sid" and "is_active s"
    and "\<exists>a \<in> set (agent_services (data c)). as_agent_id a = agentId"
    and "\<not> (\<exists>a \<in> set (agent_services (data c)).
               as_agent_id a = agentId \<and> as_service_id a = sid)"
  shows "fst (post_call_next body now c)
           = Inl (httpError 403 ''Agent is not assigned to this service'')"
proof -
  let ?st = "data c"
  note parsed = post_call_next_parsed [OF assms(1,2,3,5,6)]
  have rs: "parse_optional (b_serviceId body) ''serviceId'' None = Inr (Some sid)"
    using assms(4,7) by (simp add: parse_optional_positive)
  have rt: "parse_optional (b_ticketId body) ''ticketId'' None = Inr None"
    using assms(8) by (rule parse_optional_absent)
  from active_service_found [OF assms(9,10,11)]
  obtain s' where "active_service ?st sid = Some s'" by blast
  with assms(4,12,13) have "select_ticket ?st counterId agentId (Some sid) None
               = Inl (httpError 403 ''Agent is not assigned to this service'')"
    by (simp add: select_ticket_def truthy_num_def resolve_requested_service)
  then have "fst (call_next_tx counterId agentId (Some sid) None now ?st)
               = Inl (httpError 403 ''Agent is not assigned to this service'')"
    by (simp only: call_next_tx_error)
  then show ?thesis
    unfolding parsed [OF rs rt] .
qed

lemma call_next_unassigned_no_403:
  assumes "saved c = None" and "0 < counterId" and "0 < agentId"
    and "b_counterId body = Some counterId" and "b_agentId body = Some agentId"
    and "b_ticketId body = None \<or> b_ticketId body = Some 0"
    and "\<not> (\<exists>a \<in> set (agent_services (data c)). as_agent_id a = agentId)"
    and "fst (post_call_next body now c) = Inl e"
  shows "response_status e \<noteq> 403"
proof -
  let ?st = "data c"
  note parsed = post_call_next_parsed [OF assms(1,2,3,4,5)]
  have rt: "parse_optional (b_ticketId body) ''ticketId'' None = Inr None"
    using assms(6) by (rule parse_optional_absent)
  show ?thesis
  proof (cases "parse_optional (b_serviceId body) ''serviceId'' None")
    case (Inl e')
    then have "fst (post_call_next body now c) = Inl e'"
      using assms(2-5) by (simp add: post_call_next_def parsePositiveInt_positive)
    then have "Inl e' = (Inl e :: error + call_next_result)"
      using assms(8) by (rule trans [OF sym])
    then have "e' = e" by simp
    with parse_optional_error [OF Inl] show ?thesis
      by (simp add: response_status_def)
  next
    case (Inr rs)
    from assms(8) have "fst (call_next_tx counterId agentId rs None now ?st) = Inl e"
      unfolding parsed [OF Inr rt] .
    then have sel: "select_ticket ?st counterId agentId rs None = Inl e"
      by (simp only: call_next_tx_error)
    show ?thesis
    proof (cases "resolve_service ?st counterId agentId rs")
      case (Inl e'')
      with sel have "e'' = e"
        by (simp add: select_ticket_def truthy_num_def)
      with resolve_unassigned_no_403 [OF assms(7) Inl] show ?thesis
        by (auto simp: response_status_def)
    next
      case (Inr serviceContext)
      with sel have "status e = Some 404"
        by (auto simp: select_ticket_def truthy_num_def httpError_def split: option.splits)
      then show ?thesis by (simp add: response_status_def)
    qed
  qed
qed

lemma call_next_unassigned_succeeds:
  assumes "saved c = None" and "0 < counterId" and "0 < agentId" and "0 < sid"
    and "b_counterId body = Some counterId" and "b_agentId body = Some agentId"
    and "b_serviceId body = Some sid"
    and "b_ticketId body = None \<or> b_ticketId body = Some 0"
    and "s \<in> set (services (data c))" and "s_id s = sid" and "is_active s"
    and "\<not> (\<exists>a \<in> set (agent_services (data c)). as_agent_id a = agentId)"
    and "t \<in> set (tickets (data c))" and "service_id t = sid" and "t_state t = Waiting"
  shows "\<exists>res. fst (post_call_next body now c) = Inr res \<and> cn_serviceId res = sid"
proof -
  let ?st = "data c"
  note parsed = post_call_next_parsed [OF assms(1,2,3,5,6)]
  have rs: "parse_optional (b_serviceId body) ''serviceId'' None = Inr (Some sid)"
    using assms(4,7) by (simp add: parse_optional_positive)
  have rt: "parse_optional (b_ticketId body) ''ticketId'' None = Inr None"
    using assms(8) by (rule parse_optional_absent)
  from active_service_found [OF assms(9,10,11)]
  obtain s' where s': "active_service ?st sid = Some s'" "s_id s' = sid" by blast
  from next_waiting_ticket_exists [OF assms(13,14,15,9,10)]
  obtain t' where t': "next_waiting_ticket ?st sid = Some t'" "service_id t' = sid" by blast
  from assms(4,12) s' t' have "select_ticket ?st counterId agentId (Some sid) None = Inr t'"
    by (simp add: select_ticket_def truthy_num_def resolve_requested_service)
  from call_next_tx_service [OF this, of now] t'(2)
  show ?thesis
    unfolding parsed [OF rs rt] by auto
qed

text \<open>
  The service of an agent without assignments who names none: the default service of
  the counter, which a unique counter identifier determines, and otherwise the head of
  the active services in the order of priority and identifier.
\<close>

lemma in_set_nonempty: "x \<in> set xs \<Longrightarrow> xs \<noteq> []"
  by auto

lemma counter_default_service_found:
  assumes "distinct (map c_id (counters st))"
    and "k \<in> set (counters st)" and "c_id k = counterId" and "default_service_id k = Some d"
    and "s \<in> set (services st)" and "s_id s = d" and "is_active s"
  shows "\<exists>s'. counter_default_service st counterId = Some s' \<and> s_id s' = d
             \<and> s' \<in> set (services st)"
proof -
  let ?rows = "concat (map (\<lambda>c. filter (\<lambda>s. default_service_id c = Some (s_id s)
                                       \<and> c_id c = counterId \<and> is_active s)
                                 (services st))
                    (counters st))"
  have "s \<in> set ?rows"
    using assms(2-7) by auto
  then have "?rows \<noteq> []" by (rule in_set_nonempty)
  from first_row_nonempty [OF this]
  obtain s' where s': "first_row ?rows = Some s'" by blast
  from first_row_member [OF s']
  obtain c where c: "c \<in> set (counters st)" "default_service_id c = Some (s_id s')"
      "c_id c = counterId" "s' \<in> set (services st)"
    by auto
  from assms(1) have "inj_on c_id (set (counters st))"
    by (simp add: distinct_map)
  with c(1,3) assms(2,3) have "c = k"
    by (auto dest: inj_onD)
  with c(2) assms(4) have "s_id s' = d" by simp
  with s' c(4) show ?thesis
    by (simp add: counter_default_service_def)
qed

lemma counter_default_service_none:
  assumes "\<not> (\<exists>k \<in> set (counters st). c_id k = counterId
               \<and> (\<exists>s \<in> set (services st). default_service_id k = Some (s_id s) \<and> is_active s))"
  shows "counter_default_service st counterId = None"
proof -
  let ?rows = "concat (map (\<lambda>c. filter (\<lambda>s. default_service_id c = Some (s_id s)
                                       \<and> c_id c = counterId \<and> is_active s)
                                 (services st))
                    (counters st))"
  have "set ?rows = {}"
    using assms by auto
  then have rows: "?rows = []" by (simp only: set_empty)
  show ?thesis
    unfolding counter_default_service_def rows by (simp add: first_row_def)
qed

lemma insert_row_sorted:
  assumes asym: "\<And>a b. lt a b \<Longrightarrow> \<not> lt b a"
    and negtrans: "\<And>a b c. lt a c \<Longrightarrow> lt a b \<or> lt b c"
    and "sorted_wrt (\<lambda>a b. \<not> lt b a) ys"
  shows "sorted_wrt (\<lambda>a b. \<not> lt b a) (insert_row lt x ys)"
  using assms(3)
proof (induction ys)
  case Nil
  then show ?case by simp
next
  case (Cons y ys)
  show ?case
  proof (cases "lt y x")
    case True
    with Cons asym [OF True] show ?thesis
      by (auto simp: set_insert_row)
  next
    case False
    have "\<not> lt z x" if "z \<in> set ys" for z
    proof
      assume "lt z x"
      from negtrans [OF this, of y] False have "lt z y" by simp
      with Cons.prems that show False by simp
    qed
    with False Cons.prems show ?thesis by simp
  qed
qed

lemma order_by_sorted:
  assumes "\<And>a b. lt a b \<Longrightarrow> \<not> lt b a"
    and "\<And>a b c. lt a c \<Longrightarrow> lt a b \<or> lt b c"
  shows "sorted_wrt (\<lambda>a b. \<not> lt b a) (order_by lt xs)"
proof (induction xs)
  case Nil
  then show ?case by (simp add: order_by_def)
next
  case (Cons x xs)
  have "order_by lt (x # xs) = insert_row lt x (order_by lt xs)"
    by (simp add: order_by_def)
  with insert_row_sorted [of lt "order_by lt xs" x, OF assms Cons] show ?case
    by simp
qed

lemma first_active_service_found:
  assumes "f \<in> set (services st)" and "is_active f"
    and "\<forall>s \<in> set (services st). is_active s \<longrightarrow>
           s_priority f < s_priority s \<or> (s_priority f = s_priority s \<and> s_id f \<le> s_id s)"
  shows "\<exists>s'. first_active_service st = Some s' \<and> s_id s' = s_id f \<and> s' \<in> set (services st)"
proof -
  let ?lt = "\<lambda>a b. s_priority a < s_priority b \<or> (s_priority a = s_priority b \<and> s_id a < s_id b)"
  let ?rows = "order_by ?lt (filter is_active (services st))"
  have sorted: "sorted_wrt (\<lambda>a b. \<not> ?lt b a) ?rows"
    by (rule order_by_sorted) auto
  have mem: "f \<in> set ?rows"
    using assms(1,2) by (simp add: set_order_by)
  then obtain h rest where rows: "?rows = h # rest"
    by (cases ?rows) auto
  have "h \<in> set ?rows" unfolding rows by simp
  then have h: "h \<in> set (services st)" "is_active h"
    by (simp_all add: set_order_by)
  with assms(3) have le: "s_priority f < s_priority h
                          \<or> (s_priority f = s_priority h \<and> s_id f \<le> s_id h)"
    by blast
  have "\<not> ?lt f h"
  proof (cases "f = h")
    case True
    then show ?thesis by simp
  next
    case False
    with mem have "f \<in> set rest" unfolding rows by simp
    with sorted show ?thesis unfolding rows by simp
  qed
  with le have "s_id h = s_id f" by auto
  with rows h(1) show ?thesis
    by (simp add: first_active_service_def first_row_def)
qed

lemma agent_service_ids_unassigned:
  assumes "\<not> (\<exists>a \<in> set (agent_services st). as_agent_id a = agentId)"
  shows "agent_service_ids st agentId = []"
  using assms set_agent_service_ids [of st agentId]
  by (cases "agent_service_ids st agentId") auto

lemma call_next_default_service_succeeds:
  assumes "saved c = None" and "0 < counterId" and "0 < agentId"
    and "b_counterId body = Some counterId" and "b_agentId body = Some agentId"
    and "b_serviceId body = None \<or> b_serviceId body = Some 0"
    and "b_ticketId body = None \<or> b_ticketId body = Some 0"
    and "\<not> (\<exists>a \<in> set (agent_services (data c)). as_agent_id a = agentId)"
    and "distinct (map c_id (counters (data c)))"
    and "k \<in> set (counters (data c))" and "c_id k = counterId" and "default_service_id k = Some d"
    and "s \<in> set (services (data c))" and "s_id s = d" and "is_active s"
    and "t \<in> set (tickets (data c))" and "service_id t = d" and "t_state t = Waiting"
  shows "\<exists>res. fst (post_call_next body now c) = Inr res \<and> cn_serviceId res = d"
proof -
  let ?st = "data c"
  note parsed = post_call_next_parsed [OF assms(1,2,3,4,5)]
  have rs: "parse_optional (b_serviceId body) ''serviceId'' None = Inr None"
    using assms(6) by (rule parse_optional_absent)
  have rt: "parse_optional (b_ticketId body) ''ticketId'' None = Inr None"
    using assms(7) by (rule parse_optional_absent)
  note none = agent_service_ids_unassigned [OF assms(8)]
  from counter_default_service_found [OF assms(9-15)]
  obtain s' where s': "counter_default_service ?st counterId = Some s'" "s_id s' = d"
    by blast
  from next_waiting_ticket_exists [OF assms(16,17,18,13,14)]
  obtain t' where t': "next_waiting_ticket ?st d = Some t'" "service_id t' = d" by blast
  from none s' t' have "select_ticket ?st counterId agentId None None = Inr t'"
    by (simp add: select_ticket_def truthy_num_def resolve_service_def)
  from call_next_tx_service [OF this, of now] t'(2)
  show ?thesis
    unfolding parsed [OF rs rt] by auto
qed

lemma call_next_first_active_succeeds:
  assumes "saved c = None" and "0 < counterId" and "0 < agentId"
    and "b_counterId body = Some counterId" and "b_agentId body = Some agentId"
    and "b_serviceId body = None \<or> b_serviceId body = Some 0"
    and "b_ticketId body = None \<or> b_ticketId body = Some 0"
    and "\<not> (\<exists>a \<in> set (agent_services (data c)). as_agent_id a = agentId)"
    and "\<not> (\<exists>k \<in> set (counters (data c)). c_id k = counterId
               \<and> (\<exists>s \<in> set (services (data c)). default_service_id k = Some (s_id s) \<and> is_active s))"
    and "f \<in> set (services (data c))" and "is_active f" and "s_id f = d"
    and "\<forall>s \<in> set (services (data c)). is_active s \<longrightarrow>
           s_priority f < s_priority s \<or> (s_priority f = s_priority s \<and> s_id f \<le> s_id s)"
    and "t \<in> set (tickets (data c))" and "service_id t = d" and "t_state t = Waiting"
  shows "\<exists>res. fst (post_call_next body now c) = Inr res \<and> cn_serviceId res = d"
proof -
  let ?st = "data c"
  note parsed = post_call_next_parsed [OF assms(1,2,3,4,5)]
  have rs: "parse_optional (b_serviceId body) ''serviceId'' None = Inr None"
    using assms(6) by (rule parse_optional_absent)
  have rt: "parse_optional (b_ticketId body) ''ticketId'' None = Inr None"
    using assms(7) by (rule parse_optional_absent)
  note none = agent_service_ids_unassigned [OF assms(8)]
  note no_default = counter_default_service_none [OF assms(9)]
  from first_active_service_found [OF assms(10,11,13)] assms(12)
  obtain s' where s': "first_active_service ?st = Some s'" "s_id s' = d"
    by auto
  from next_waiting_ticket_exists [OF assms(14,15,16,10,12)]
  obtain t' where t': "next_waiting_ticket ?st d = Some t'" "service_id t' = d" by blast
  from none no_default s' t' have "select_ticket ?st counterId agentId None None = Inr t'"
    by (simp add: select_ticket_def truthy_num_def resolve_service_def)
  from call_next_tx_service [OF this, of now] t'(2)
  show ?thesis
    unfolding parsed [OF rs rt] by auto
qed

lemma call_next_no_service_400:
  assumes "saved c = None" and "0 < counterId" and "0 < agentId"
    and "b_counterId body = Some counterId" and "b_agentId body = Some agentId"
    and "b_serviceId body = None \<or> b_serviceId body = Some 0"
    and "b_ticketId body = None \<or> b_ticketId body = Some 0"
    and "\<not> (\<exists>a \<in> set (agent_services (data c)). as_agent_id a = agentId)"
    and "\<not> (\<exists>s \<in> set (services (data c)). is_active s)"
  shows "fst (post_call_next body now c)
           = Inl (httpError 400 ''Unable to determine service for agent'')"
proof -
  let ?st = "data c"
  note parsed = post_call_next_parsed [OF assms(1,2,3,4,5)]
  have rs: "parse_optional (b_serviceId body) ''serviceId'' None = Inr None"
    using assms(6) by (rule parse_optional_absent)
  have rt: "parse_optional (b_ticketId body) ''ticketId'' None = Inr None"
    using assms(7) by (rule parse_optional_absent)
  note none = agent_service_ids_unassigned [OF assms(8)]
  have no_default: "counter_default_service ?st counterId = None"
    using assms(9) by (intro counter_default_service_none) blast
  have "filter is_active (services ?st) = []"
    using assms(9) by (simp add: filter_empty_conv)
  then have "first_active_service ?st = None"
    by (simp add: first_active_service_def order_by_def first_row_def)
  with none no_default
  have "select_ticket ?st counterId agentId None None
          = Inl (httpError 400 ''Unable to determine service for agent'')"
    by (simp add: select_ticket_def truthy_num_def resolve_service_def)
  then have "fst (call_next_tx counterId agentId None None now ?st)
          = Inl (httpError 400 ''Unable to determine service for agent'')"
    by (simp only: call_next_tx_error)
  then show ?thesis
    unfolding parsed [OF rs rt] .
qed

text \<open>
  C10. A call-next request with valid counter and agent identifiers. The error 403
  "Agent is not assigned to this service" for a request that names the service \<open>sid\<close>
  is raised only when the agent has at least one assignment and \<open>sid\<close> is not among
  them; and it is raised whenever that is so, the service is active and no ticket is
  requested. For an agent without any assignment, a request without a requested ticket
  never fails with 403, and it is served from any active service that holds a waiting
  ticket, whichever way the service is resolved: from the service \<open>sid\<close> that the request
  names; without a named service, from the default service \<open>d\<close> of the counter, when
  that service is active (counter identifiers being unique); and without an active
  default service, from the first active service \<open>fid\<close> in the order of priority and
  identifier. (A request for a specific ticket is checked on its own, against the
  ticket's service.)
\<close>

theorem call_next_authorization:
  assumes "saved c = None" and "0 < counterId" and "0 < agentId" and "0 < sid"
    and "b_counterId body = Some counterId" and "b_agentId body = Some agentId"
  shows "(b_serviceId body = Some sid
          \<and> fst (post_call_next body now c)
               = Inl (httpError 403 ''Agent is not assigned to this service'')
          \<longrightarrow> (\<exists>a \<in> set (agent_services (data c)). as_agent_id a = agentId)
            \<and> \<not> (\<exists>a \<in> set (agent_services (data c)).
                     as_agent_id a = agentId \<and> as_service_id a = sid))
       \<and> (b_serviceId body = Some sid
          \<and> (b_ticketId body = None \<or> b_ticketId body = Some 0)
          \<and> (\<exists>s \<in> set (services (data c)). s_id s = sid \<and> is_active s)
          \<and> (\<exists>a \<in> set (agent_services (data c)). as_agent_id a = agentId)
          \<and> \<not> (\<exists>a \<in> set (agent_services (data c)).
                   as_agent_id a = agentId \<and> as_service_id a = sid)
          \<longrightarrow> fst (post_call_next body now c)
                = Inl (httpError 403 ''Agent is not assigned to this service''))
       \<and> (\<not> (\<exists>a \<in> set (agent_services (data c)). as_agent_id a = agentId)
          \<and> (b_ticketId body = None \<or> b_ticketId body = Some 0)
          \<longrightarrow> (\<forall>e. fst (post_call_next body now c) = Inl e \<longrightarrow> response_status e \<noteq> 403))
       \<and> (\<not> (\<exists>a \<in> set (agent_services (data c)). as_agent_id a = agentId)
          \<and> (b_ticketId body = None \<or> b_ticketId body = Some 0)
          \<and> b_serviceId body = Some sid
          \<and> (\<exists>s \<in> set (services (data c)). s_id s = sid \<and> is_active s)
          \<and> (\<exists>t \<in> set (tickets (data c)). service_id t = sid \<and> t_state t = Waiting)
          \<longrightarrow> (\<exists>res. fst (post_call_next body now c) = Inr res \<and> cn_serviceId res = sid))
       \<and> (\<not> (\<exists>a \<in> set (agent_services (data c)). as_agent_id a = agentId)
          \<and> (b_ticketId body = None \<or> b_ticketId body = Some 0)
          \<and> (b_serviceId body = None \<or> b_serviceId body = Some 0)
          \<and> distinct (map c_id (counters (data c)))
          \<and> (\<exists>k \<in> set (counters (data c)). c_id k = counterId \<and> default_service_id k = Some d)
          \<and> (\<exists>s \<in> set (services (data c)). s_id s = d \<and> is_active s)
          \<and> (\<exists>t \<in> set (tickets (data c)). service_id t = d \<and> t_state t = Waiting)
          \<longrightarrow> (\<exists>res. fst (post_call_next body now c) = Inr res \<and> cn_serviceId res = d))
       \<and> (\<not> (\<exists>a \<in> set (agent_services (data c)). as_agent_id a = agentId)
          \<and> (b_ticketId body = None \<or> b_ticketId body = Some 0)
          \<and> (b_serviceId body = None \<or> b_serviceId body = Some 0)
          \<and> \<not> (\<exists>k \<in> set (counters (data c)). c_id k = counterId
                  \<and> (\<exists>s \<in> set (services (data c)).
                        default_service_id k = Some (s_id s) \<and> is_active s))
          \<and> (\<exists>f \<in> set (services (data c)). is_active f \<and> s_id f = fid
                \<and> (\<forall>s \<in> set (services (data c)). is_active s \<longrightarrow>
                      s_priority f < s_priority s
                      \<or> (s_priority f = s_priority s \<and> s_id f \<le> s_id s)))
          \<and> (\<exists>t \<in> set (tickets (data c)). service_id t = fid \<and> t_state t = Waiting)
          \<longrightarrow> (\<exists>res. fst (post_call_next body now c) = Inr res \<and> cn_serviceId res = fid))"
proof -
  note ids = assms(1-4) assms(5,6)
  have only_if: "b_serviceId body = Some sid
          \<and> fst (post_call_next body now c)
               = Inl (httpError 403 ''Agent is not assigned to this service'')
          \<longrightarrow> (\<exists>a \<in> set (agent_services (data c)). as_agent_id a = agentId)
            \<and> \<not> (\<exists>a \<in> set (agent_services (data c)).
                     as_agent_id a = agentId \<and> as_service_id a = sid)"
  proof (rule impI, elim conjE)
    assume "b_serviceId body = Some sid"
      and "fst (post_call_next body now c)
             = Inl (httpError 403 ''Agent is not assigned to this service'')"
    with ids show "(\<exists>a \<in> set (agent_services (data c)). as_agent_id a = agentId)
            \<and> \<not> (\<exists>a \<in> set (agent_services (data c)).
                     as_agent_id a = agentId \<and> as_service_id a = sid)"
      by (rule call_next_403_only_if)
  qed
  have "if": "b_serviceId body = Some sid
          \<and> (b_ticketId body = None \<or> b_ticketId body = Some 0)
          \<and> (\<exists>s \<in> set (services (data c)). s_id s = sid \<and> is_active s)
          \<and> (\<exists>a \<in> set (agent_services (data c)). as_agent_id a = agentId)
          \<and> \<not> (\<exists>a \<in> set (agent_services (data c)).
                   as_agent_id a = agentId \<and> as_service_id a = sid)
          \<longrightarrow> fst (post_call_next body now c)
                = Inl (httpError 403 ''Agent is not assigned to this service'')"
  proof (rule impI)
    assume h: "b_serviceId body = Some sid
          \<and> (b_ticketId body = None \<or> b_ticketId body = Some 0)
          \<and> (\<exists>s \<in> set (services (data c)). s_id s = sid \<and> is_active s)
          \<and> (\<exists>a \<in> set (agent_services (data c)). as_agent_id a = agentId)
          \<and> \<not> (\<exists>a \<in> set (agent_services (data c)).
                   as_agent_id a = agentId \<and> as_service_id a = sid)"
    note h1 = h [THEN conjunct1]
    note h2 = h [THEN conjunct2, THEN conjunct1]
    note h3 = h [THEN conjunct2, THEN conjunct2, THEN conjunct1]
    note h4 = h [THEN conjunct2, THEN conjunct2, THEN conjunct2, THEN conjunct1]
    note h5 = h [THEN conjunct2, THEN conjunct2, THEN conjunct2, THEN conjunct2]
    from h3 obtain s where "s \<in> set (services (data c))" "s_id s = sid" "is_active s"
      by (elim bexE conjE)
    from ids h1 h2 this h4 h5
    show "fst (post_call_next body now c)
                = Inl (httpError 403 ''Agent is not assigned to this service'')"
      by (rule call_next_403_if)
  qed
  have unassigned: "\<not> (\<exists>a \<in> set (agent_services (data c)). as_agent_id a = agentId)
          \<and> (b_ticketId body = None \<or> b_ticketId body = Some 0)
          \<longrightarrow> (\<forall>e. fst (post_call_next body now c) = Inl e \<longrightarrow> response_status e \<noteq> 403)"
  proof (intro impI allI, elim conjE)
    fix e
    assume "fst (post_call_next body now c) = Inl e"
      and "\<not> (\<exists>a \<in> set (agent_services (data c)). as_agent_id a = agentId)"
      and "b_ticketId body = None \<or> b_ticketId body = Some 0"
    then show "response_status e \<noteq> 403"
      by (intro call_next_unassigned_no_403 [OF assms(1,2,3,5,6)])
  qed
  have succeeds: "\<not> (\<exists>a \<in> set (agent_services (data c)). as_agent_id a = agentId)
          \<and> (b_ticketId body = None \<or> b_ticketId body = Some 0)
          \<and> b_serviceId body = Some sid
          \<and> (\<exists>s \<in> set (services (data c)). s_id s = sid \<and> is_active s)
          \<and> (\<exists>t \<in> set (tickets (data c)). service_id t = sid \<and> t_state t = Waiting)
          \<longrightarrow> (\<exists>res. fst (post_call_next body now c) = Inr res \<and> cn_serviceId res = sid)"
  proof (rule impI)
    assume h: "\<not> (\<exists>a \<in> set (agent_services (data c)). as_agent_id a = agentId)
          \<and> (b_ticketId body = None \<or> b_ticketId body = Some 0)
          \<and> b_serviceId body = Some sid
          \<and> (\<exists>s \<in> set (services (data c)). s_id s = sid \<and> is_active s)
          \<and> (\<exists>t \<in> set (tickets (data c)). service_id t = sid \<and> t_state t = Waiting)"
    note h1 = h [THEN conjunct1]
    note h2 = h [THEN conjunct2, THEN conjunct1]
    note h3 = h [THEN conjunct2, THEN conjunct2, THEN conjunct1]
    note h4 = h [THEN conjunct2, THEN conjunct2, THEN conjunct2, THEN conjunct1]
    note h5 = h [THEN conjunct2, THEN conjunct2, THEN conjunct2, THEN conjunct2]
    from h4 obtain s where s: "s \<in> set (services (data c))" "s_id s = sid" "is_active s"
      by (elim bexE conjE)
    from h5 obtain t where t: "t \<in> set (tickets (data c))" "service_id t = sid" "t_state t = Waiting"
      by (elim bexE conjE)
    from ids h3 h2 s h1 t
    show "\<exists>res. fst (post_call_next body now c) = Inr res \<and> cn_serviceId res = sid"
      by (rule call_next_unassigned_succeeds)
  qed
  have default_path: "\<not> (\<exists>a \<in> set (agent_services (data c)). as_agent_id a = agentId)
          \<and> (b_ticketId body = None \<or> b_ticketId body = Some 0)
          \<and> (b_serviceId body = None \<or> b_serviceId body = Some 0)
          \<and> distinct (map c_id (counters (data c)))
          \<and> (\<exists>k \<in> set (counters (data c)). c_id k = counterId \<and> default_service_id k = Some d)
          \<and> (\<exists>s \<in> set (services (data c)). s_id s = d \<and> is_active s)
          \<and> (\<exists>t \<in> set (tickets (data c)). service_id t = d \<and> t_state t = Waiting)
          \<longrightarrow> (\<exists>res. fst (post_call_next body now c) = Inr res \<and> cn_serviceId res = d)"
  proof (rule impI)
    assume h: "\<not> (\<exists>a \<in> set (agent_services (data c)). as_agent_id a = agentId)
          \<and> (b_ticketId body = None \<or> b_ticketId body = Some 0)
          \<and> (b_serviceId body = None \<or> b_serviceId body = Some 0)
          \<and> distinct (map c_id (counters (data c)))
          \<and> (\<exists>k \<in> set (counters (data c)). c_id k = counterId \<and> default_service_id k = Some d)
          \<and> (\<exists>s \<in> set (services (data c)). s_id s = d \<and> is_active s)
          \<and> (\<exists>t \<in> set (tickets (data c)). service_id t = d \<and> t_state t = Waiting)"
    note h1 = h [THEN conjunct1]
    note h2 = h [THEN conjunct2, THEN conjunct1]
    note h3 = h [THEN conjunct2, THEN conjunct2, THEN conjunct1]
    note h4 = h [THEN conjunct2, THEN conjunct2, THEN conjunct2, THEN conjunct1]
    note h5 = h [THEN conjunct2, THEN conjunct2, THEN conjunct2, THEN conjunct2, THEN conjunct1]
    note h6 = h [THEN conjunct2, THEN conjunct2, THEN conjunct2, THEN conjunct2, THEN conjunct2, THEN conjunct1]
    note h7 = h [THEN conjunct2, THEN conjunct2, THEN conjunct2, THEN conjunct2, THEN conjunct2, THEN conjunct2]
    from h5 obtain k where k: "k \<in> set (counters (data c))" "c_id k = counterId"
        "default_service_id k = Some d"
      by (elim bexE conjE)
    from h6 obtain s where s: "s \<in> set (services (data c))" "s_id s = d" "is_active s"
      by (elim bexE conjE)
    from h7 obtain t where t: "t \<in> set (tickets (data c))" "service_id t = d" "t_state t = Waiting"
      by (elim bexE conjE)
    from assms(1,2,3,5,6) h3 h2 h1 h4 k s t
    show "\<exists>res. fst (post_call_next body now c) = Inr res \<and> cn_serviceId res = d"
      by (rule call_next_default_service_succeeds)
  qed
  have first_active: "\<not> (\<exists>a \<in> set (agent_services (data c)). as_agent_id a = agentId)
          \<and> (b_ticketId body = None \<or> b_ticketId body = Some 0)
          \<and> (b_serviceId body = None \<or> b_serviceId body = Some 0)
          \<and> \<not> (\<exists>k \<in> set (counters (data c)). c_id k = counterId
                  \<and> (\<exists>s \<in> set (services (data c)).
                        default_service_id k = Some (s_id s) \<and> is_active s))
          \<and> (\<exists>f \<in> set (services (data c)). is_active f \<and> s_id f = fid
                \<and> (\<forall>s \<in> set (services (data c)). is_active s \<longrightarrow>
                      s_priority f < s_priority s
                      \<or> (s_priority f = s_priority s \<and> s_id f \<le> s_id s)))
          \<and> (\<exists>t \<in> set (tickets (data c)). service_id t = fid \<and> t_state t = Waiting)
          \<longrightarrow> (\<exists>res. fst (post_call_next body now c) = Inr res \<and> cn_serviceId res = fid)"
  proof (rule impI)
    assume h: "\<not> (\<exists>a \<in> set (agent_services (data c)). as_agent_id a = agentId)
          \<and> (b_ticketId body = None \<or> b_ticketId body = Some 0)
          \<and> (b_serviceId body = None \<or> b_serviceId body = Some 0)
          \<and> \<not> (\<exists>k \<in> set (counters (data c)). c_id k = counterId
                  \<and> (\<exists>s \<in> set (services (data c)).
                        default_service_id k = Some (s_id s) \<and> is_active s))
          \<and> (\<exists>f \<in> set (services (data c)). is_active f \<and> s_id f = fid
                \<and> (\<forall>s \<in> set (services (data c)). is_active s \<longrightarrow>
                      s_priority f < s_priority s
                      \<or> (s_priority f = s_priority s \<and> s_id f \<le> s_id s)))
          \<and> (\<exists>t \<in> set (tickets (data c)). service_id t = fid \<and> t_state t = Waiting)"
    note h1 = h [THEN conjunct1]
    note h2 = h [THEN conjunct2, THEN conjunct1]
    note h3 = h [THEN conjunct2, THEN conjunct2, THEN conjunct1]
    note h4 = h [THEN conjunct2, THEN conjunct2, THEN conjunct2, THEN conjunct1]
    note h5 = h [THEN conjunct2, THEN conjunct2, THEN conjunct2, THEN conjunct2, THEN conjunct1]
    note h6 = h [THEN conjunct2, THEN conjunct2, THEN conjunct2, THEN conjunct2, THEN conjunct2]
    from h5 obtain f where f: "f \<in> set (services (data c))" "is_active f" "s_id f = fid"
        "\<forall>s \<in> set (services (data c)). is_active s \<longrightarrow>
           s_priority f < s_priority s \<or> (s_priority f = s_priority s \<and> s_id f \<le> s_id s)"
      by (elim bexE conjE)
    from h6 obtain t where t: "t \<in> set (tickets (data c))" "service_id t = fid" "t_state t = Waiting"
      by (elim bexE conjE)
    from assms(1,2,3,5,6) h3 h2 h1 h4 f t
    show "\<exists>res. fst (post_call_next body now c) = Inr res \<and> cn_serviceId res = fid"
      by (rule call_next_first_active_succeeds)
  qed
  show ?thesis
    by (rule conjI [OF only_if conjI [OF "if" conjI [OF unassigned
          conjI [OF succeeds conjI [OF default_path first_active]]]]])
qed

text \<open>
  On the example database with a ticket waiting in service 2: agent 7, assigned to
  service 1 only, is refused service 2; agent 9, without assignments, is served from it.
\<close>

theorem call_next_authorization_witness:
  "fst (post_call_next (service_request 7 2) 3000 billing_conn)
     = Inl (httpError 403 ''Agent is not assigned to this service'')
   \<and> map_sum id cn_serviceId (fst (post_call_next (service_request 9 2) 3000 billing_conn)) = Inr 2
   \<and> map_sum id cn_serviceId (fst (post_call_next (counter_request 9 4) 3000 two_queues_conn)) = Inr 2
   \<and> map_sum id cn_serviceId (fst (post_call_next (counter_request 9 3) 3000 two_queues_conn)) = Inr 1"
proof -
  have hyps7: "saved billing_conn = None" "0 < (3::int)" "0 < (7::int)" "0 < (2::int)"
    "b_counterId (service_request 7 2) = Some 3" "b_agentId (service_request 7 2) = Some 7"
    by (simp_all add: billing_conn_def service_request_def mk_conn_def)
  have hyps9: "saved billing_conn = None" "0 < (3::int)" "0 < (9::int)" "0 < (2::int)"
    "b_counterId (service_request 9 2) = Some 3" "b_agentId (service_request 9 2) = Some 9"
    by (simp_all add: billing_conn_def service_request_def mk_conn_def)
  have hyps4: "saved two_queues_conn = None" "0 < (4::int)" "0 < (9::int)" "0 < (2::int)"
    "b_counterId (counter_request 9 4) = Some 4" "b_agentId (counter_request 9 4) = Some 9"
    by (simp_all add: two_queues_conn_def counter_request_def mk_conn_def)
  have hyps3: "saved two_queues_conn = None" "0 < (3::int)" "0 < (9::int)" "0 < (2::int)"
    "b_counterId (counter_request 9 3) = Some 3" "b_agentId (counter_request 9 3) = Some 9"
    by (simp_all add: two_queues_conn_def counter_request_def mk_conn_def)
  have facts7: "b_serviceId (service_request 7 2) = Some 2
      \<and> (b_ticketId (service_request 7 2) = None \<or> b_ticketId (service_request 7 2) = Some 0)
      \<and> (\<exists>s \<in> set (services (data billing_conn)). s_id s = 2 \<and> is_active s)
      \<and> (\<exists>a \<in> set (agent_services (data billing_conn)). as_agent_id a = 7)
      \<and> \<not> (\<exists>a \<in> set (agent_services (data billing_conn)).
               as_agent_id a = 7 \<and> as_service_id a = 2)"
    by (simp add: billing_conn_def service_request_def mk_conn_def mk_store_def mk_service_def
                  mk_ticket_def)
  have facts9: "\<not> (\<exists>a \<in> set (agent_services (data billing_conn)). as_agent_id a = 9)
      \<and> (b_ticketId (service_request 9 2) = None \<or> b_ticketId (service_request 9 2) = Some 0)
      \<and> b_serviceId (service_request 9 2) = Some 2
      \<and> (\<exists>s \<in> set (services (data billing_conn)). s_id s = 2 \<and> is_active s)
      \<and> (\<exists>t \<in> set (tickets (data billing_conn)). service_id t = 2 \<and> t_state t = Waiting)"
    by (simp add: billing_conn_def service_request_def mk_conn_def mk_store_def mk_service_def
                  mk_ticket_def)
  have facts4: "\<not> (\<exists>a \<in> set (agent_services (data two_queues_conn)). as_agent_id a = 9)
      \<and> (b_ticketId (counter_request 9 4) = None \<or> b_ticketId (counter_request 9 4) = Some 0)
      \<and> (b_serviceId (counter_request 9 4) = None \<or> b_serviceId (counter_request 9 4) = Some 0)
      \<and> distinct (map c_id (counters (data two_queues_conn)))
      \<and> (\<exists>k \<in> set (counters (data two_queues_conn)). c_id k = 4 \<and> default_service_id k = Some 2)
      \<and> (\<exists>s \<in> set (services (data two_queues_conn)). s_id s = 2 \<and> is_active s)
      \<and> (\<exists>t \<in> set (tickets (data two_queues_conn)). service_id t = 2 \<and> t_state t = Waiting)"
    by (simp add: two_queues_conn_def counter_request_def mk_conn_def mk_store_def
                  mk_service_def mk_ticket_def mk_counter_def)
  have facts3: "\<not> (\<exists>a \<in> set (agent_services (data two_queues_conn)). as_agent_id a = 9)
      \<and> (b_ticketId (counter_request 9 3) = None \<or> b_ticketId (counter_request 9 3) = Some 0)
      \<and> (b_serviceId (counter_request 9 3) = None \<or> b_serviceId (counter_request 9 3) = Some 0)
      \<and> \<not> (\<exists>k \<in> set (counters (data two_queues_conn)). c_id k = 3
              \<and> (\<exists>s \<in> set (services (data two_queues_conn)).
                    default_service_id k = Some (s_id s) \<and> is_active s))
      \<and> (\<exists>f \<in> set (services (data two_queues_conn)). is_active f \<and> s_id f = 1
            \<and> (\<forall>s \<in> set (services (data two_queues_conn)). is_active s \<longrightarrow>
                  s_priority f < s_priority s
                  \<or> (s_priority f = s_priority s \<and> s_id f \<le> s_id s)))
      \<and> (\<exists>t \<in> set (tickets (data two_queues_conn)). service_id t = 1 \<and> t_state t = Waiting)"
    by (simp add: two_queues_conn_def counter_request_def mk_conn_def mk_store_def
                  mk_service_def mk_ticket_def mk_counter_def)
  note at7 = call_next_authorization [OF hyps7, of 3000 0 0]
  note at9 = call_next_authorization [OF hyps9, of 3000 0 0]
  note at4 = call_next_authorization [OF hyps4, of 3000 2 0]
  note at3 = call_next_authorization [OF hyps3, of 3000 0 1]
  have refused: "fst (post_call_next (service_request 7 2) 3000 billing_conn)
     = Inl (httpError 403 ''Agent is not assigned to this service'')"
    by (rule mp [OF at7 [THEN conjunct2, THEN conjunct1] facts7])
  have "\<exists>res. fst (post_call_next (service_request 9 2) 3000 billing_conn) = Inr res
              \<and> cn_serviceId res = 2"
    by (rule mp [OF at9 [THEN conjunct2, THEN conjunct2, THEN conjunct2, THEN conjunct1] facts9])
  then have served: "map_sum id cn_serviceId (fst (post_call_next (service_request 9 2) 3000 billing_conn))
                       = Inr 2"
    by auto
  have "\<exists>res. fst (post_call_next (counter_request 9 4) 3000 two_queues_conn) = Inr res
              \<and> cn_serviceId res = 2"
    by (rule mp [OF at4 [THEN conjunct2, THEN conjunct2, THEN conjunct2, THEN conjunct2,
                         THEN conjunct1] facts4])
  then have by_default: "map_sum id cn_serviceId
                           (fst (post_call_next (counter_request 9 4) 3000 two_queues_conn)) = Inr 2"
    by auto
  have "\<exists>res. fst (post_call_next (counter_request 9 3) 3000 two_queues_conn) = Inr res
              \<and> cn_serviceId res = 1"
    by (rule mp [OF at3 [THEN conjunct2, THEN conjunct2, THEN conjunct2, THEN conjunct2,
                         THEN conjunct2] facts3])
  then have by_first: "map_sum id cn_serviceId
                         (fst (post_call_next (counter_request 9 3) 3000 two_queues_conn)) = Inr 1"
    by auto
  from refused served by_default by_first show ?thesis by (intro conjI)
qed

end
